theory Spec2Isabelle
  imports Main
begin

section \<open>Python text operations used by the script\<close>

text \<open>
  Text is modelled as \<^typ>\<open>string\<close>, a list of 8-bit characters; case and white space
  are those of ASCII, which is what an os-release file and a version banner hold.
\<close>

definition upper_letters :: string where
  "upper_letters = ''ABCDEFGHIJKLMNOPQRSTUVWXYZ''"

definition lower_letters :: string where
  "lower_letters = ''abcdefghijklmnopqrstuvwxyz''"

definition lower_char :: "char \<Rightarrow> char" where
  "lower_char c = (case map_of (zip upper_letters lower_letters) c of Some d \<Rightarrow> d | None \<Rightarrow> c)"

definition lower :: "string \<Rightarrow> string" where
  \<comment> \<open>\<^verbatim>\<open>s.lower()\<close>\<close>
  "lower s = map lower_char s"

definition whitespace :: string where
  \<comment> \<open>the ASCII characters for which \<^verbatim>\<open>str.isspace\<close> holds: TAB, LF, VT, FF, CR, FS, GS, RS, US, SPACE\<close>
  "whitespace = [CHR 0x09, CHR 0x0A, CHR 0x0B, CHR 0x0C, CHR 0x0D,
                 CHR 0x1C, CHR 0x1D, CHR 0x1E, CHR 0x1F, CHR 0x20]"

definition strip_chars :: "string \<Rightarrow> string \<Rightarrow> string" where
  \<comment> \<open>\<^verbatim>\<open>s.strip(chars)\<close>: drops leading and trailing characters that occur in \<open>chars\<close>\<close>
  "strip_chars chars s =
     rev (dropWhile (\<lambda>c. c \<in> set chars) (rev (dropWhile (\<lambda>c. c \<in> set chars) s)))"

definition strip :: "string \<Rightarrow> string" where
  \<comment> \<open>\<^verbatim>\<open>s.strip()\<close>\<close>
  "strip s = strip_chars whitespace s"

fun split_where :: "(char \<Rightarrow> bool) \<Rightarrow> string \<Rightarrow> string list" where
  "split_where P [] = [[]]"
| "split_where P (c # cs) =
     (if P c then [] # split_where P cs
      else (case split_where P cs of
              w # ws \<Rightarrow> (c # w) # ws
            | [] \<Rightarrow> [[c]]))"

definition split_char :: "char \<Rightarrow> string \<Rightarrow> string list" where
  \<comment> \<open>\<^verbatim>\<open>s.split(sep)\<close> for a one-character separator: every occurrence splits\<close>
  "split_char sep s = split_where (\<lambda>c. c = sep) s"

definition split_whitespace :: "string \<Rightarrow> string list" where
  \<comment> \<open>\<^verbatim>\<open>s.split()\<close>: the maximal runs of non-white-space characters\<close>
  "split_whitespace s = filter (\<lambda>w. w \<noteq> []) (split_where (\<lambda>c. c \<in> set whitespace) s)"

fun starts_with :: "string \<Rightarrow> string \<Rightarrow> bool" where
  "starts_with [] s = True"
| "starts_with (p # ps) [] = False"
| "starts_with (p # ps) (c # cs) = (p = c \<and> starts_with ps cs)"

fun str_contains :: "string \<Rightarrow> string \<Rightarrow> bool" where
  \<comment> \<open>\<^verbatim>\<open>p in s\<close> on two strings: \<open>p\<close> occurs in \<open>s\<close> as a contiguous substring\<close>
  "str_contains p [] = (p = [])"
| "str_contains p (c # cs) = (starts_with p (c # cs) \<or> str_contains p cs)"

section \<open>The host: processes, files, platform\<close>

datatype exn = CalledProcessError | FileNotFoundError | PermissionError | OtherException

type_synonym argv = "string list"

text \<open>
  Everything the script does to the machine is recorded in order: a child process spawned
  by \<^verbatim>\<open>subprocess.run\<close>, a file opened for reading, and the call of the imported
  \<^verbatim>\<open>setup\<close>.
\<close>

datatype event = Run argv | ReadFile string | Setup string

text \<open>One constructor for each \<^verbatim>\<open>print\<close> statement of the script.\<close>

datatype message =
    NodeInstalled string
  | NodeMissing
  | DetectedSystem string
  | DistroId string
  | CannotDetect exn
  | DebianBanner
  | RedHatBanner
  | InstallOk
  | InstallFailed
  | FallbackBanner
  | FallbackOk
  | AllMethodsFailed
  | FallbackFailed exn
  | UnknownDistro
  | UnsupportedDistro string
  | LinuxOnly
  | SudoAdvised
  | Checking
  | EnvReady
  | StartInstall
  | ConfigDone
  | VerifyFailed
  | NodeInstallFailed

text \<open>
  The host answers a spawned command with the child's standard output when it exits
  with status 0 (\<open>Inr\<close>), and otherwise with the exception that
  \<^verbatim>\<open>subprocess.run(..., check=True)\<close> raises: \<open>CalledProcessError\<close> for a non-zero
  exit, \<open>FileNotFoundError\<close> for a missing executable, or any other. A command may
  change the host (installing a package makes a later version query succeed), so the
  host's state \<open>'w\<close> is threaded through.
\<close>

record 'w host =
  spawn :: "argv \<Rightarrow> 'w \<Rightarrow> (exn + string) \<times> 'w"
  slurp :: "string \<Rightarrow> 'w \<Rightarrow> exn + string"
  platform_system :: string
  geteuid :: nat

record 'w state =
  world :: 'w
  events :: "event list"
  printed :: "message list"

definition say :: "message \<Rightarrow> 'w state \<Rightarrow> 'w state" where
  \<comment> \<open>\<^verbatim>\<open>print(...)\<close>\<close>
  "say m st = st\<lparr>printed := printed st @ [m]\<rparr>"

definition ran_cmd :: "argv \<Rightarrow> 'w \<Rightarrow> 'w state \<Rightarrow> 'w state" where
  \<comment> \<open>the state once the child \<open>cmd\<close> has run and left the host as \<open>w'\<close>\<close>
  "ran_cmd cmd w' st = st\<lparr>world := w', events := events st @ [Run cmd]\<rparr>"

definition subprocess_run :: "'w host \<Rightarrow> argv \<Rightarrow> 'w state \<Rightarrow> (exn + string) \<times> 'w state" where
  \<comment> \<open>\<^verbatim>\<open>subprocess.run(argv, check=True)\<close>\<close>
  "subprocess_run h cmd st = (case spawn h cmd (world st) of (r, w') \<Rightarrow> (r, ran_cmd cmd w' st))"

definition seq ::
  "('w state \<Rightarrow> (exn + 'a) \<times> 'w state) \<Rightarrow> ('a \<Rightarrow> 'w state \<Rightarrow> (exn + 'b) \<times> 'w state) \<Rightarrow>
   'w state \<Rightarrow> (exn + 'b) \<times> 'w state" where
  \<comment> \<open>one statement after another: an exception of the first skips the second\<close>
  "seq m f st = (case m st of (Inl e, st') \<Rightarrow> (Inl e, st') | (Inr v, st') \<Rightarrow> f v st')"

section \<open>\<^verbatim>\<open>check_node_installed\<close>\<close>

definition node_version_cmd :: argv where
  "node_version_cmd = [''node'', ''--version'']"

definition check_node_installed :: "'w host \<Rightarrow> 'w state \<Rightarrow> (exn + bool) \<times> 'w state" where
  "check_node_installed h st =
     (case subprocess_run h node_version_cmd st of
        (Inr out, st') \<Rightarrow> (Inr True, say (NodeInstalled (strip out)) st')
      | (Inl CalledProcessError, st') \<Rightarrow> (Inr False, say NodeMissing st')
      | (Inl FileNotFoundError, st') \<Rightarrow> (Inr False, say NodeMissing st')
      | (Inl e, st') \<Rightarrow> (Inl e, st'))"

section \<open>\<^verbatim>\<open>detect_linux_distro\<close>\<close>

definition os_release :: string where
  "os_release = ''/etc/os-release''"

definition parse_line :: "string \<Rightarrow> (string \<rightharpoonup> string) \<Rightarrow> (string \<rightharpoonup> string)" where
  \<comment> \<open>the body of the \<^verbatim>\<open>for line in content.split('\n')\<close> loop\<close>
  "parse_line line info =
     (if CHR ''='' \<in> set line
      then info(takeWhile (\<lambda>c. c \<noteq> CHR ''='') line \<mapsto>
                strip_chars [CHR 0x22] (tl (dropWhile (\<lambda>c. c \<noteq> CHR ''='') line)))
      else info)"

definition parse_os_release :: "string \<Rightarrow> (string \<rightharpoonup> string)" where
  "parse_os_release content = foldl (\<lambda>info line. parse_line line info) Map.empty (split_char (CHR 0x0A) content)"

definition dict_get :: "(string \<rightharpoonup> string) \<Rightarrow> string \<Rightarrow> string \<Rightarrow> string" where
  \<comment> \<open>\<^verbatim>\<open>d.get(key, default)\<close>\<close>
  "dict_get d k dflt = (case d k of Some v \<Rightarrow> v | None \<Rightarrow> dflt)"

text \<open>
  The function returns either a pair of two strings or \<^verbatim>\<open>(None, None)\<close>; the latter
  is \<open>None\<close> here.
\<close>

definition detect_linux_distro :: "'w host \<Rightarrow> 'w state \<Rightarrow> (string \<times> string) option \<times> 'w state" where
  "detect_linux_distro h st =
     (let st1 = st\<lparr>events := events st @ [ReadFile os_release]\<rparr> in
      case slurp h os_release (world st) of
        Inl e \<Rightarrow> (None, say (CannotDetect e) st1)
      | Inr content \<Rightarrow>
          (let distro_info = parse_os_release content;
               distro_id = lower (dict_get distro_info ''ID'' '''');
               distro_id_like = lower (dict_get distro_info ''ID_LIKE'' '''')
           in (Some (distro_id, distro_id_like),
               say (DistroId distro_id)
                 (say (DetectedSystem (dict_get distro_info ''NAME'' ''Unknown'')) st1))))"

section \<open>The install strategies\<close>

definition deb_setup_script :: string where
  "deb_setup_script = ''https://deb.nodesource.com/setup_18.x''"

definition rpm_setup_script :: string where
  "rpm_setup_script = ''https://rpm.nodesource.com/setup_18.x''"

definition curl_cmd :: "string \<Rightarrow> argv" where
  "curl_cmd url = [''curl'', ''-fsSL'', url]"

definition handle_called_process_error ::
  "(exn + bool) \<times> 'w state \<Rightarrow> (exn + bool) \<times> 'w state" where
  \<comment> \<open>\<^verbatim>\<open>except subprocess.CalledProcessError\<close>: print and return False; any other exception propagates\<close>
  "handle_called_process_error r =
     (case r of
        (Inl CalledProcessError, st') \<Rightarrow> (Inr False, say InstallFailed st')
      | _ \<Rightarrow> r)"

definition install_nodejs_debian_based :: "'w host \<Rightarrow> 'w state \<Rightarrow> (exn + bool) \<times> 'w state" where
  "install_nodejs_debian_based h st =
     handle_called_process_error
       (seq (subprocess_run h [''sudo'', ''apt'', ''update'']) (\<lambda>_.
        seq (subprocess_run h [''sudo'', ''apt'', ''install'', ''-y'', ''curl'', ''gnupg'']) (\<lambda>_.
        seq (subprocess_run h [''curl'', ''-fsSL'', deb_setup_script]) (\<lambda>_.
        seq (subprocess_run h (curl_cmd deb_setup_script)) (\<lambda>setup_script.
        seq (subprocess_run h [''sudo'', ''-E'', ''bash'', ''-c'', setup_script]) (\<lambda>_.
        seq (subprocess_run h [''sudo'', ''apt'', ''install'', ''-y'', ''nodejs'']) (\<lambda>_.
        (\<lambda>s. (Inr True, say InstallOk s))))))))
          (say DebianBanner st))"

definition install_nodejs_redhat_based :: "'w host \<Rightarrow> 'w state \<Rightarrow> (exn + bool) \<times> 'w state" where
  "install_nodejs_redhat_based h st =
     handle_called_process_error
       (seq (subprocess_run h [''sudo'', ''yum'', ''install'', ''-y'', ''curl'']) (\<lambda>_.
        seq (subprocess_run h (curl_cmd rpm_setup_script)) (\<lambda>setup_script.
        seq (subprocess_run h [''sudo'', ''-E'', ''bash'', ''-c'', setup_script]) (\<lambda>_.
        seq (subprocess_run h [''sudo'', ''yum'', ''install'', ''-y'', ''nodejs'']) (\<lambda>_.
        (\<lambda>s. (Inr True, say InstallOk s))))))
          (say RedHatBanner st))"

definition package_managers :: "argv list" where
  "package_managers =
     [[''apt'', ''install'', ''-y'', ''nodejs'', ''npm''],
      [''yum'', ''install'', ''-y'', ''nodejs'', ''npm''],
      [''dnf'', ''install'', ''-y'', ''nodejs'', ''npm''],
      [''zypper'', ''install'', ''-y'', ''nodejs'', ''npm''],
      [''pacman'', ''-S'', ''--noconfirm'', ''nodejs'', ''npm'']]"

fun try_managers :: "'w host \<Rightarrow> argv list \<Rightarrow> 'w state \<Rightarrow> (exn + bool) \<times> 'w state" where
  \<comment> \<open>the \<^verbatim>\<open>for pkg_cmd in package_managers\<close> loop; \<open>Inr False\<close> when the list is exhausted\<close>
  "try_managers h [] st = (Inr False, st)"
| "try_managers h (pkg_cmd # rest) st =
     (case subprocess_run h (''sudo'' # pkg_cmd) st of
        (Inr out, st') \<Rightarrow> (Inr True, say FallbackOk st')
      | (Inl CalledProcessError, st') \<Rightarrow> try_managers h rest st'
      | (Inl FileNotFoundError, st') \<Rightarrow> try_managers h rest st'
      | (Inl e, st') \<Rightarrow> (Inl e, st'))"

definition install_nodejs_fallback :: "'w host \<Rightarrow> 'w state \<Rightarrow> (exn + bool) \<times> 'w state" where
  "install_nodejs_fallback h st =
     (case try_managers h package_managers (say FallbackBanner st) of
        (Inr True, st') \<Rightarrow> (Inr True, st')
      | (Inr False, st') \<Rightarrow> (Inr False, say AllMethodsFailed st')
      | (Inl e, st') \<Rightarrow> (Inr False, say (FallbackFailed e) st'))"

section \<open>\<^verbatim>\<open>install_nodejs\<close>\<close>

definition debian_family :: "string \<Rightarrow> string \<Rightarrow> bool" where
  \<comment> \<open>the condition of the \<^verbatim>\<open>if\<close> at line 154\<close>
  "debian_family distro_id distro_id_like =
     (distro_id \<in> set [''debian'', ''ubuntu''] \<or>
      list_ex (\<lambda>like. str_contains like distro_id_like) [''debian'', ''ubuntu''])"

definition redhat_family :: "string \<Rightarrow> string \<Rightarrow> bool" where
  \<comment> \<open>the condition of the \<^verbatim>\<open>elif\<close> at line 159\<close>
  "redhat_family distro_id distro_id_like =
     (distro_id \<in> set [''rhel'', ''centos'', ''fedora''] \<or>
      list_ex (\<lambda>like. str_contains like distro_id_like) [''rhel'', ''fedora''])"

definition falsy :: "(string \<times> string) option \<Rightarrow> bool" where
  \<comment> \<open>\<^verbatim>\<open>not distro_id\<close>: the id is \<^verbatim>\<open>None\<close> or the empty string\<close>
  "falsy d = (case d of None \<Rightarrow> True | Some (distro_id, _) \<Rightarrow> distro_id = [])"

definition unsupported_then_fallback :: "'w host \<Rightarrow> string \<Rightarrow> 'w state \<Rightarrow> (exn + bool) \<times> 'w state" where
  \<comment> \<open>lines 164 and 165\<close>
  "unsupported_then_fallback h distro_id st =
     install_nodejs_fallback h (say (UnsupportedDistro distro_id) st)"

definition dispatch ::
  "'w host \<Rightarrow> (string \<times> string) option \<Rightarrow> 'w state \<Rightarrow> (exn + bool) \<times> 'w state" where
  \<comment> \<open>the body of \<^verbatim>\<open>install_nodejs\<close> after its first line\<close>
  "dispatch h d st =
     (if falsy d then install_nodejs_fallback h (say UnknownDistro st)
      else (case d of
          None \<Rightarrow> install_nodejs_fallback h (say UnknownDistro st)
        | Some (distro_id, distro_id_like) \<Rightarrow>
            if debian_family distro_id distro_id_like then
              (case install_nodejs_debian_based h st of
                 (Inl e, st') \<Rightarrow> (Inl e, st')
               | (Inr True, st') \<Rightarrow> (Inr True, st')
               | (Inr False, st') \<Rightarrow> unsupported_then_fallback h distro_id st')
            else if redhat_family distro_id distro_id_like then
              (case install_nodejs_redhat_based h st of
                 (Inl e, st') \<Rightarrow> (Inl e, st')
               | (Inr True, st') \<Rightarrow> (Inr True, st')
               | (Inr False, st') \<Rightarrow> unsupported_then_fallback h distro_id st')
            else unsupported_then_fallback h distro_id st))"

definition install_nodejs :: "'w host \<Rightarrow> 'w state \<Rightarrow> (exn + bool) \<times> 'w state" where
  "install_nodejs h st = (case detect_linux_distro h st of (d, st') \<Rightarrow> dispatch h d st')"

section \<open>\<^verbatim>\<open>main\<close>\<close>

definition setup_call :: "string \<Rightarrow> 'w state \<Rightarrow> 'w state" where
  \<comment> \<open>Modelled from the spec: \<^verbatim>\<open>setup\<close> is imported from \<^verbatim>\<open>turf_mcp.main\<close>, which is
      not among the sources; the spec takes it as a collaborator called with a mode token,
      its effects out of scope. The call is recorded and returns.\<close>
  "setup_call mode st = st\<lparr>events := events st @ [Setup mode]\<rparr>"

text \<open>
  The result of a run is the exit status of the process: \<open>Inr 1\<close> for \<^verbatim>\<open>sys.exit(1)\<close>,
  \<open>Inr 0\<close> when \<^verbatim>\<open>main\<close> returns, and \<open>Inl e\<close> when an exception reaches the top level
  (the interpreter prints it and the status is 1).
\<close>

definition finish :: "'w state \<Rightarrow> (exn + int) \<times> 'w state" where
  \<comment> \<open>line 200 and the return of \<^verbatim>\<open>main\<close>\<close>
  "finish st = (Inr 0, setup_call ''http'' st)"

definition main :: "'w host \<Rightarrow> 'w state \<Rightarrow> (exn + int) \<times> 'w state" where
  "main h st =
     (if platform_system h \<noteq> ''Linux'' then (Inr 1, say LinuxOnly st)
      else
        (let st1 = (if geteuid h \<noteq> 0 then say SudoAdvised st else st);
             st2 = say Checking st1
         in case check_node_installed h st2 of
              (Inl e, st3) \<Rightarrow> (Inl e, st3)
            | (Inr True, st3) \<Rightarrow> finish (say EnvReady st3)
            | (Inr False, st3) \<Rightarrow>
                (case install_nodejs h (say StartInstall st3) of
                   (Inl e, st4) \<Rightarrow> (Inl e, st4)
                 | (Inr True, st4) \<Rightarrow>
                     (case check_node_installed h st4 of
                        (Inl e, st5) \<Rightarrow> (Inl e, st5)
                      | (Inr True, st5) \<Rightarrow> finish (say ConfigDone st5)
                      | (Inr False, st5) \<Rightarrow> (Inr 1, say VerifyFailed st5))
                 | (Inr False, st4) \<Rightarrow> (Inr 1, say NodeInstallFailed st4))))"

definition exit_status :: "exn + int \<Rightarrow> int" where
  "exit_status r = (case r of Inl e \<Rightarrow> 1 | Inr n \<Rightarrow> n)"

section \<open>Hosts for concrete runs\<close>

definition start :: "'w \<Rightarrow> 'w state" where
  "start w = \<lparr>world = w, events = [], printed = []\<rparr>"

definition scripted_host :: "exn + string \<Rightarrow> string \<Rightarrow> nat \<Rightarrow> (exn + string) list host" where
  \<comment> \<open>a host that answers the spawned commands, in order, with the entries of a script\<close>
  "scripted_host file plat uid =
     \<lparr>spawn = (\<lambda>cmd w. case w of [] \<Rightarrow> (Inl FileNotFoundError, []) | r # rs \<Rightarrow> (r, rs)),
      slurp = (\<lambda>path w. if path = os_release then file else Inl FileNotFoundError),
      platform_system = plat,
      geteuid = uid\<rparr>"

definition only_manager_host :: "string \<Rightarrow> unit host" where
  \<comment> \<open>a host on which \<^verbatim>\<open>sudo prog ...\<close> succeeds and every other command exits non-zero\<close>
  "only_manager_host prog =
     \<lparr>spawn = (\<lambda>cmd w. case cmd of
                 s # p # _ \<Rightarrow> (if s = ''sudo'' \<and> p = prog then (Inr [], w) else (Inl CalledProcessError, w))
               | _ \<Rightarrow> (Inl CalledProcessError, w)),
      slurp = (\<lambda>path w. Inl FileNotFoundError),
      platform_system = ''Linux'',
      geteuid = 0\<rparr>"

definition ubuntu_os_release :: string where
  \<comment> \<open>three lines of an os-release file: \<^verbatim>\<open>NAME="Ubuntu"\<close>, \<^verbatim>\<open>ID=ubuntu\<close>, \<^verbatim>\<open>ID_LIKE=debian\<close>\<close>
  "ubuntu_os_release =
     ''NAME='' @ [CHR 0x22] @ ''Ubuntu'' @ [CHR 0x22, CHR 0x0A] @
     ''ID=ubuntu'' @ [CHR 0x0A] @
     ''ID_LIKE=debian'' @ [CHR 0x0A]"

section \<open>Notions the statements use\<close>

fun world_after :: "'w host \<Rightarrow> argv list \<Rightarrow> 'w \<Rightarrow> 'w" where
  \<comment> \<open>the host after the commands have run one after another\<close>
  "world_after h [] w = w"
| "world_after h (cmd # cmds) w = world_after h cmds (snd (spawn h cmd w))"

definition answer_at :: "'w host \<Rightarrow> argv list \<Rightarrow> 'w \<Rightarrow> nat \<Rightarrow> exn + string" where
  \<comment> \<open>what the host answers to the \<open>i\<close>-th command when the ones before it have run\<close>
  "answer_at h cmds w i = fst (spawn h (cmds ! i) (world_after h (take i cmds) w))"

definition skipped :: "exn + string \<Rightarrow> bool" where
  \<comment> \<open>a non-zero exit or a missing executable\<close>
  "skipped r = (r = Inl CalledProcessError \<or> r = Inl FileNotFoundError)"

definition fallback_cmds :: "argv list" where
  \<comment> \<open>\<^verbatim>\<open>['sudo'] + pkg_cmd\<close> for each entry of the list\<close>
  "fallback_cmds = map (\<lambda>pkg_cmd. ''sudo'' # pkg_cmd) package_managers"

datatype strategy = Debian | RedHat | Fallback

fun banner :: "message \<Rightarrow> strategy option" where
  \<comment> \<open>each strategy function prints its own line first\<close>
  "banner DebianBanner = Some Debian"
| "banner RedHatBanner = Some RedHat"
| "banner FallbackBanner = Some Fallback"
| "banner _ = None"

definition entered :: "message list \<Rightarrow> strategy list" where
  \<comment> \<open>the strategies that were started, in order, read off the printed lines\<close>
  "entered msgs = List.map_filter banner msgs"

fun setups :: "event list \<Rightarrow> string list" where
  \<comment> \<open>the mode tokens of the calls of \<^verbatim>\<open>setup\<close>, in order\<close>
  "setups [] = []"
| "setups (Setup mode # es) = mode # setups es"
| "setups (_ # es) = setups es"

definition keeps :: "('w state \<Rightarrow> 'o) \<Rightarrow> ('w state \<Rightarrow> 'r \<times> 'w state) \<Rightarrow> bool" where
  \<comment> \<open>the computation leaves the observation \<open>obs\<close> of the state as it was\<close>
  "keeps obs m = (\<forall>st. obs (snd (m st)) = obs st)"

definition spec_select :: "string \<Rightarrow> string \<Rightarrow> strategy" where
  \<comment> \<open>the decision table in the words of the specification: \<open>ID_LIKE\<close> is split on white
      space into a set of tokens, and a family is chosen when the id or one of the tokens
      is one of its names\<close>
  "spec_select distro_id id_like =
     (let tokens = set (split_whitespace (lower id_like)) in
      if distro_id \<in> {''debian'', ''ubuntu''} \<or> tokens \<inter> {''debian'', ''ubuntu''} \<noteq> {} then Debian
      else if distro_id \<in> {''rhel'', ''centos'', ''fedora''} \<or> tokens \<inter> {''rhel'', ''fedora''} \<noteq> {}
      then RedHat
      else Fallback)"

definition gate_passed :: "'w host \<Rightarrow> 'w state \<Rightarrow> 'w state" where
  \<comment> \<open>the state of a Linux run at line 183: the advice to use sudo, if the user is not
      root, and the line that announces the check have been printed\<close>
  "gate_passed h st = say Checking (if geteuid h \<noteq> 0 then say SudoAdvised st else st)"

section \<open>Basic facts\<close>

lemma say_simps [simp]:
  "world (say m st) = world st"
  "events (say m st) = events st"
  "printed (say m st) = printed st @ [m]"
  by (simp_all add: say_def)

lemma strip_chars_decomp:
  "\<exists>pre post. s = pre @ strip_chars cs s @ post \<and> set pre \<subseteq> set cs \<and> set post \<subseteq> set cs"
proof -
  let ?P = "\<lambda>c. c \<in> set cs"
  let ?t = "dropWhile ?P s"
  have a: "s = takeWhile ?P s @ ?t" by simp
  have "rev ?t = takeWhile ?P (rev ?t) @ dropWhile ?P (rev ?t)" by simp
  then have "rev (rev ?t) = rev (takeWhile ?P (rev ?t) @ dropWhile ?P (rev ?t))"
    by (rule arg_cong)
  then have b: "?t = strip_chars cs s @ rev (takeWhile ?P (rev ?t))"
    unfolding strip_chars_def rev_append rev_rev_ident .
  have c: "set (takeWhile ?P s) \<subseteq> set cs" by (auto dest: set_takeWhileD)
  have d: "set (rev (takeWhile ?P (rev ?t))) \<subseteq> set cs" by (auto dest: set_takeWhileD)
  from a b have "s = takeWhile ?P s @ strip_chars cs s @ rev (takeWhile ?P (rev ?t))" by simp
  with c d show ?thesis by blast
qed

lemma strip_chars_ends:
  assumes "strip_chars cs s \<noteq> []"
  shows "hd (strip_chars cs s) \<notin> set cs" and "last (strip_chars cs s) \<notin> set cs"
proof -
  let ?P = "\<lambda>c. c \<in> set cs"
  let ?t = "dropWhile ?P s"
  let ?u = "dropWhile ?P (rev ?t)"
  from assms have u: "?u \<noteq> []" by (simp add: strip_chars_def)
  have t: "?t \<noteq> []"
  proof
    assume "?t = []"
    then have "?u = []" by (simp only: rev.simps dropWhile.simps)
    with u show False by simp
  qed
  have "last (strip_chars cs s) = hd ?u" using u by (simp add: strip_chars_def last_rev)
  moreover have "\<not> ?P (hd ?u)" using u by (rule hd_dropWhile)
  ultimately show "last (strip_chars cs s) \<notin> set cs" by simp
  have "hd (strip_chars cs s) = last ?u" using u by (simp add: strip_chars_def hd_rev)
  also have "\<dots> = last (rev ?t)" using u by (metis last_appendR takeWhile_dropWhile_id)
  also have "\<dots> = hd ?t" using t by (simp add: last_rev)
  finally have "hd (strip_chars cs s) = hd ?t" .
  moreover have "\<not> ?P (hd ?t)" using t by (rule hd_dropWhile)
  ultimately show "hd (strip_chars cs s) \<notin> set cs" by simp
qed

lemma ran_cmd_simps [simp]:
  "world (ran_cmd cmd w st) = w"
  "events (ran_cmd cmd w st) = events st @ [Run cmd]"
  "printed (ran_cmd cmd w st) = printed st"
  by (simp_all add: ran_cmd_def)

lemma subprocess_run_eq:
  "spawn h cmd (world st) = (r, w) \<Longrightarrow> subprocess_run h cmd st = (r, ran_cmd cmd w st)"
  by (simp add: subprocess_run_def)

section \<open>The presence check\<close>

text \<open>
  Claim C7. The presence check is a probe: when the version query finds no executable
  or exits non-zero, \<^verbatim>\<open>check_node_installed\<close> returns False (not installed, no version
  reported) instead of raising; when the query succeeds it returns True and reports the
  trimmed standard output as the version: the output without the white space at its two
  ends.
\<close>

theorem check_node_installed_probe:
  assumes "spawn h [''node'', ''--version''] (world st) = (r, w)"
  shows "(r = Inl FileNotFoundError \<or> r = Inl CalledProcessError \<longrightarrow>
            check_node_installed h st =
              (Inr False, say NodeMissing (ran_cmd [''node'', ''--version''] w st)))
       \<and> (\<forall>out. r = Inr out \<longrightarrow>
            check_node_installed h st =
              (Inr True, say (NodeInstalled (strip out)) (ran_cmd [''node'', ''--version''] w st))
            \<and> (\<exists>pre post. out = pre @ strip out @ post
                  \<and> set pre \<subseteq> set whitespace \<and> set post \<subseteq> set whitespace)
            \<and> (strip out \<noteq> [] \<longrightarrow>
                  hd (strip out) \<notin> set whitespace \<and> last (strip out) \<notin> set whitespace))"
proof -
  have run: "subprocess_run h node_version_cmd st = (r, ran_cmd [''node'', ''--version''] w st)"
    using assms by (simp add: subprocess_run_def node_version_cmd_def)
  have fail: "r = Inl FileNotFoundError \<or> r = Inl CalledProcessError \<longrightarrow>
      check_node_installed h st = (Inr False, say NodeMissing (ran_cmd [''node'', ''--version''] w st))"
    by (auto simp: check_node_installed_def run)
  have ok: "check_node_installed h st =
      (Inr True, say (NodeInstalled (strip out)) (ran_cmd [''node'', ''--version''] w st))"
    if "r = Inr out" for out
    using that by (simp add: check_node_installed_def run)
  have trimmed: "\<exists>pre post. out = pre @ strip out @ post
      \<and> set pre \<subseteq> set whitespace \<and> set post \<subseteq> set whitespace" for out
    unfolding strip_def by (rule strip_chars_decomp)
  have ends: "strip out \<noteq> [] \<longrightarrow>
      hd (strip out) \<notin> set whitespace \<and> last (strip out) \<notin> set whitespace" for out
    unfolding strip_def using strip_chars_ends [of whitespace out] by blast
  from fail ok trimmed ends show ?thesis by blast
qed

theorem check_node_installed_probe_witness:
  "check_node_installed (scripted_host (Inl FileNotFoundError) ''Linux'' 0)
       (start [Inr ('' v18.19.0'' @ [CHR 0x0A])]) =
     (Inr True, \<lparr>world = [], events = [Run [''node'', ''--version'']],
                 printed = [NodeInstalled ''v18.19.0'']\<rparr>)
   \<and> check_node_installed (scripted_host (Inl FileNotFoundError) ''Linux'' 0)
       (start [Inl FileNotFoundError]) =
     (Inr False, \<lparr>world = [], events = [Run [''node'', ''--version'']],
                  printed = [NodeMissing]\<rparr>)
   \<and> check_node_installed (scripted_host (Inl FileNotFoundError) ''Linux'' 0)
       (start [Inl CalledProcessError]) =
     (Inr False, \<lparr>world = [], events = [Run [''node'', ''--version'']],
                  printed = [NodeMissing]\<rparr>)"
proof -
  let ?h = "scripted_host (Inl FileNotFoundError) ''Linux'' 0"
  have a: "spawn ?h [''node'', ''--version''] (world (start [Inr ('' v18.19.0'' @ [CHR 0x0A])]))
             = (Inr ('' v18.19.0'' @ [CHR 0x0A]), [])"
    by (simp add: scripted_host_def start_def)
  have b: "spawn ?h [''node'', ''--version''] (world (start [Inl FileNotFoundError]))
             = (Inl FileNotFoundError, [])"
    by (simp add: scripted_host_def start_def)
  have c: "spawn ?h [''node'', ''--version''] (world (start [Inl CalledProcessError]))
             = (Inl CalledProcessError, [])"
    by (simp add: scripted_host_def start_def)
  show ?thesis
    using check_node_installed_probe [OF a] check_node_installed_probe [OF b]
      check_node_installed_probe [OF c]
    by (simp add: say_def ran_cmd_def start_def strip_def strip_chars_def whitespace_def)
qed

section \<open>The fallback strategy\<close>

lemma answer_at_0: "answer_at h (c # cs) w 0 = fst (spawn h c w)"
  by (simp add: answer_at_def)

lemma answer_at_Suc: "answer_at h (c # cs) w (Suc i) = answer_at h cs (snd (spawn h c w)) i"
  by (simp add: answer_at_def)

lemma try_managers_step_skip:
  assumes "skipped (fst (spawn h (''sudo'' # p) (world st)))"
  shows "try_managers h (p # ps) st =
           try_managers h ps (ran_cmd (''sudo'' # p) (snd (spawn h (''sudo'' # p) (world st))) st)"
  using assms
  by (cases "spawn h (''sudo'' # p) (world st)")
     (auto simp: skipped_def subprocess_run_def)

lemma try_managers_step_ok:
  assumes "fst (spawn h (''sudo'' # p) (world st)) = Inr out"
  shows "try_managers h (p # ps) st =
           (Inr True, say FallbackOk (ran_cmd (''sudo'' # p) (snd (spawn h (''sudo'' # p) (world st))) st))"
  using assms
  by (cases "spawn h (''sudo'' # p) (world st)")
     (auto simp: subprocess_run_def)

lemma try_managers_first_success:
  assumes "k < length pms"
    and "\<forall>i<k. skipped (answer_at h (map (\<lambda>p. ''sudo'' # p) pms) (world st) i)"
    and "answer_at h (map (\<lambda>p. ''sudo'' # p) pms) (world st) k = Inr out"
  shows "fst (try_managers h pms st) = Inr True
       \<and> events (snd (try_managers h pms st)) =
           events st @ map Run (take (Suc k) (map (\<lambda>p. ''sudo'' # p) pms))
       \<and> printed (snd (try_managers h pms st)) = printed st @ [FallbackOk]"
  using assms
proof (induction pms arbitrary: k st)
  case Nil
  then show ?case by simp
next
  case (Cons p ps)
  show ?case
  proof (cases k)
    case 0
    with Cons.prems have "fst (spawn h (''sudo'' # p) (world st)) = Inr out"
      by (simp add: answer_at_0)
    then show ?thesis using 0 by (simp add: try_managers_step_ok del: try_managers.simps)
  next
    case (Suc j)
    let ?st = "ran_cmd (''sudo'' # p) (snd (spawn h (''sudo'' # p) (world st))) st"
    from Cons.prems Suc have first: "skipped (fst (spawn h (''sudo'' # p) (world st)))"
      using answer_at_0 [of h "''sudo'' # p" _ "world st"] by force
    have j: "j < length ps" using Cons.prems Suc by simp
    have sk: "\<forall>i<j. skipped (answer_at h (map (\<lambda>p. ''sudo'' # p) ps) (world ?st) i)"
    proof (intro allI impI)
      fix i assume "i < j"
      then have "Suc i < k" using Suc by simp
      with Cons.prems have "skipped (answer_at h (map (\<lambda>p. ''sudo'' # p) (p # ps)) (world st) (Suc i))"
        by blast
      then show "skipped (answer_at h (map (\<lambda>p. ''sudo'' # p) ps) (world ?st) i)"
        by (simp add: answer_at_Suc)
    qed
    have ok: "answer_at h (map (\<lambda>p. ''sudo'' # p) ps) (world ?st) j = Inr out"
      using Cons.prems Suc by (simp add: answer_at_Suc)
    from Cons.IH [OF j sk ok] show ?thesis
      using Suc by (simp add: try_managers_step_skip [OF first] del: try_managers.simps)
  qed
qed

lemma try_managers_all_skipped:
  assumes "\<forall>i<length pms. skipped (answer_at h (map (\<lambda>p. ''sudo'' # p) pms) (world st) i)"
  shows "fst (try_managers h pms st) = Inr False
       \<and> events (snd (try_managers h pms st)) =
           events st @ map Run (map (\<lambda>p. ''sudo'' # p) pms)
       \<and> printed (snd (try_managers h pms st)) = printed st"
  using assms
proof (induction pms arbitrary: st)
  case Nil
  then show ?case by simp
next
  case (Cons p ps)
  let ?st = "ran_cmd (''sudo'' # p) (snd (spawn h (''sudo'' # p) (world st))) st"
  from Cons.prems have first: "skipped (fst (spawn h (''sudo'' # p) (world st)))"
    using answer_at_0 [of h "''sudo'' # p" _ "world st"] by force
  have sk: "\<forall>i<length ps. skipped (answer_at h (map (\<lambda>p. ''sudo'' # p) ps) (world ?st) i)"
  proof (intro allI impI)
    fix i assume "i < length ps"
    then have "Suc i < length (p # ps)" by simp
    with Cons.prems have "skipped (answer_at h (map (\<lambda>p. ''sudo'' # p) (p # ps)) (world st) (Suc i))"
      by blast
    then show "skipped (answer_at h (map (\<lambda>p. ''sudo'' # p) ps) (world ?st) i)"
      by (simp add: answer_at_Suc)
  qed
  from Cons.IH [OF sk] show ?case
    by (simp add: try_managers_step_skip [OF first] del: try_managers.simps)
qed

lemma all_less_2: "(\<forall>i<2. P i) = (P (0::nat) \<and> P 1)"
  by (auto simp: less_2_cases_iff)

lemma all_less_5: "(\<forall>i<5. P i) = (P (0::nat) \<and> P 1 \<and> P 2 \<and> P 3 \<and> P 4)"
proof -
  have "i < 5 \<longleftrightarrow> i = 0 \<or> i = 1 \<or> i = 2 \<or> i = 3 \<or> i = 4" for i :: nat
    by arith
  then show ?thesis by auto
qed

lemma fallback_cmds_literal: "fallback_cmds =
           [[''sudo'', ''apt'', ''install'', ''-y'', ''nodejs'', ''npm''],
            [''sudo'', ''yum'', ''install'', ''-y'', ''nodejs'', ''npm''],
            [''sudo'', ''dnf'', ''install'', ''-y'', ''nodejs'', ''npm''],
            [''sudo'', ''zypper'', ''install'', ''-y'', ''nodejs'', ''npm''],
            [''sudo'', ''pacman'', ''-S'', ''--noconfirm'', ''nodejs'', ''npm'']]"
    by (simp add: fallback_cmds_def package_managers_def)

lemma answer_at_stateless:
  "(\<And>cmd w. snd (spawn h cmd w) = w) \<Longrightarrow> i < length cmds \<Longrightarrow> answer_at h cmds w i = fst (spawn h (cmds ! i) w)"
proof -
  assume s: "\<And>cmd w. snd (spawn h cmd w) = w"
  have "world_after h cs w = w" for cs
    by (induction cs) (simp_all add: s)
  then show ?thesis by (simp add: answer_at_def)
qed

lemma only_manager_stateless: "snd (spawn (only_manager_host p) cmd w) = w"
  by (simp add: only_manager_host_def split: list.splits)

lemma only_manager_answer:
  "spawn (only_manager_host p) (''sudo'' # q # rest) w =
     (if q = p then (Inr [], w) else (Inl CalledProcessError, w))"
  by (simp add: only_manager_host_def)

text \<open>
  Claim C3. The fallback strategy runs \<^verbatim>\<open>sudo\<close> with the package managers apt, yum,
  dnf, zypper, pacman in this order. When the first \<open>k\<close> candidates fail with a non-zero
  exit or a missing executable and candidate \<open>k\<close> succeeds, it returns True having spawned
  exactly the first \<open>k + 1\<close> commands and printed nothing for the failed ones; when all
  five fail it returns False having spawned all five.
\<close>

theorem fallback_first_success_wins:
  assumes "\<forall>i<k. skipped (answer_at h fallback_cmds (world st) i)"
  shows "fallback_cmds =
           [[''sudo'', ''apt'', ''install'', ''-y'', ''nodejs'', ''npm''],
            [''sudo'', ''yum'', ''install'', ''-y'', ''nodejs'', ''npm''],
            [''sudo'', ''dnf'', ''install'', ''-y'', ''nodejs'', ''npm''],
            [''sudo'', ''zypper'', ''install'', ''-y'', ''nodejs'', ''npm''],
            [''sudo'', ''pacman'', ''-S'', ''--noconfirm'', ''nodejs'', ''npm'']]
       \<and> (\<forall>out. k < 5 \<and> answer_at h fallback_cmds (world st) k = Inr out \<longrightarrow>
              fst (install_nodejs_fallback h st) = Inr True
            \<and> events (snd (install_nodejs_fallback h st)) =
                events st @ map Run (take (Suc k) fallback_cmds)
            \<and> printed (snd (install_nodejs_fallback h st)) =
                printed st @ [FallbackBanner, FallbackOk])
       \<and> (k = 5 \<longrightarrow>
              fst (install_nodejs_fallback h st) = Inr False
            \<and> events (snd (install_nodejs_fallback h st)) = events st @ map Run fallback_cmds
            \<and> printed (snd (install_nodejs_fallback h st)) =
                printed st @ [FallbackBanner, AllMethodsFailed])"
proof -
  let ?st = "say FallbackBanner st"
  let ?r = "try_managers h package_managers ?st"
  have len: "length package_managers = 5"
    by (simp add: package_managers_def)
  have sk: "\<forall>i<k. skipped (answer_at h (map (\<lambda>p. ''sudo'' # p) package_managers) (world ?st) i)"
    using assms by (simp add: fallback_cmds_def)
  have lit: "fallback_cmds =
           [[''sudo'', ''apt'', ''install'', ''-y'', ''nodejs'', ''npm''],
            [''sudo'', ''yum'', ''install'', ''-y'', ''nodejs'', ''npm''],
            [''sudo'', ''dnf'', ''install'', ''-y'', ''nodejs'', ''npm''],
            [''sudo'', ''zypper'', ''install'', ''-y'', ''nodejs'', ''npm''],
            [''sudo'', ''pacman'', ''-S'', ''--noconfirm'', ''nodejs'', ''npm'']]"
    by (simp add: fallback_cmds_def package_managers_def)
  have ok: "fst (install_nodejs_fallback h st) = Inr True
            \<and> events (snd (install_nodejs_fallback h st)) =
                events st @ map Run (take (Suc k) fallback_cmds)
            \<and> printed (snd (install_nodejs_fallback h st)) =
                printed st @ [FallbackBanner, FallbackOk]"
    if "k < 5" and "answer_at h fallback_cmds (world st) k = Inr out" for out
  proof -
    have k: "k < length package_managers" using that len by simp
    have a: "answer_at h (map (\<lambda>p. ''sudo'' # p) package_managers) (world ?st) k = Inr out"
      using that by (simp add: fallback_cmds_def)
    from try_managers_first_success [OF k sk a]
    have "fst ?r = Inr True"
      and "events (snd ?r) = events st @ map Run (take (Suc k) fallback_cmds)"
      and "printed (snd ?r) = printed st @ [FallbackBanner, FallbackOk]"
      by (simp_all add: fallback_cmds_def)
    then show ?thesis
      by (cases ?r) (simp add: install_nodejs_fallback_def)
  qed
  have none: "fst (install_nodejs_fallback h st) = Inr False
            \<and> events (snd (install_nodejs_fallback h st)) = events st @ map Run fallback_cmds
            \<and> printed (snd (install_nodejs_fallback h st)) =
                printed st @ [FallbackBanner, AllMethodsFailed]"
    if "k = 5"
  proof -
    have "\<forall>i<length package_managers.
            skipped (answer_at h (map (\<lambda>p. ''sudo'' # p) package_managers) (world ?st) i)"
      using sk that len by simp
    from try_managers_all_skipped [OF this]
    have "fst ?r = Inr False"
      and "events (snd ?r) = events st @ map Run fallback_cmds"
      and "printed (snd ?r) = printed st @ [FallbackBanner]"
      by (simp_all add: fallback_cmds_def)
    then show ?thesis
      by (cases ?r) (simp add: install_nodejs_fallback_def)
  qed
  from lit ok none show ?thesis by blast
qed

theorem fallback_first_success_wins_witness:
  "fst (install_nodejs_fallback (only_manager_host ''dnf'') (start ())) = Inr True
 \<and> events (snd (install_nodejs_fallback (only_manager_host ''dnf'') (start ()))) =
     [Run [''sudo'', ''apt'', ''install'', ''-y'', ''nodejs'', ''npm''],
      Run [''sudo'', ''yum'', ''install'', ''-y'', ''nodejs'', ''npm''],
      Run [''sudo'', ''dnf'', ''install'', ''-y'', ''nodejs'', ''npm'']]
 \<and> fst (install_nodejs_fallback (only_manager_host ''brew'') (start ())) = Inr False
 \<and> events (snd (install_nodejs_fallback (only_manager_host ''brew'') (start ()))) =
     map Run fallback_cmds"
proof -
  let ?dnf = "only_manager_host ''dnf''" and ?brew = "only_manager_host ''brew''"
  have a: "\<forall>i<2. skipped (answer_at ?dnf fallback_cmds (world (start ())) i)"
    unfolding all_less_2
    by (simp add: answer_at_stateless only_manager_stateless fallback_cmds_literal
        only_manager_answer skipped_def)
  have b: "answer_at ?dnf fallback_cmds (world (start ())) 2 = Inr []"
    by (simp add: answer_at_stateless only_manager_stateless fallback_cmds_literal
        only_manager_answer)
  have c: "\<forall>i<5. skipped (answer_at ?brew fallback_cmds (world (start ())) i)"
    unfolding all_less_5
    by (simp add: answer_at_stateless only_manager_stateless fallback_cmds_literal
        only_manager_answer skipped_def)
  have t: "take (Suc 2) fallback_cmds =
      [[''sudo'', ''apt'', ''install'', ''-y'', ''nodejs'', ''npm''],
       [''sudo'', ''yum'', ''install'', ''-y'', ''nodejs'', ''npm''],
       [''sudo'', ''dnf'', ''install'', ''-y'', ''nodejs'', ''npm'']]"
    by (simp add: fallback_cmds_literal)
  have e: "events (start ()) = []"
    by (simp add: start_def)
  have b': "(2::nat) < 5 \<and> answer_at ?dnf fallback_cmds (world (start ())) 2 = Inr []"
    using b by simp
  note dnf = fallback_first_success_wins [OF a, THEN conjunct2, THEN conjunct1, THEN spec, THEN mp, OF b']
  note brew = fallback_first_success_wins [OF c, THEN conjunct2, THEN conjunct2, THEN mp, OF refl]
  from dnf
  have "fst (install_nodejs_fallback ?dnf (start ())) = Inr True
      \<and> events (snd (install_nodejs_fallback ?dnf (start ()))) =
          events (start ()) @ map Run (take (Suc 2) fallback_cmds)"
    by (simp only:)
  moreover from brew
  have "fst (install_nodejs_fallback ?brew (start ())) = Inr False
      \<and> events (snd (install_nodejs_fallback ?brew (start ()))) =
          events (start ()) @ map Run fallback_cmds"
    by (simp only:)
  ultimately show ?thesis
    unfolding t e by simp
qed

section \<open>The Debian strategy\<close>

lemma seq_run_cases:
  "seq (subprocess_run h cmd) f st =
     (case spawn h cmd (world st) of
        (Inl e, w) \<Rightarrow> (Inl e, ran_cmd cmd w st)
      | (Inr out, w) \<Rightarrow> f out (ran_cmd cmd w st))"
  by (simp add: seq_def subprocess_run_def split: prod.splits sum.splits)

lemma seq_run_ok:
  "spawn h cmd (world st) = (Inr out, w) \<Longrightarrow>
   seq (subprocess_run h cmd) f st = f out (ran_cmd cmd w st)"
  by (simp add: seq_run_cases)

lemma seq_run_err:
  "spawn h cmd (world st) = (Inl e, w) \<Longrightarrow>
   seq (subprocess_run h cmd) f st = (Inl e, ran_cmd cmd w st)"
  by (simp add: seq_run_cases)

text \<open>
  Claim C10. In the Debian strategy, once the package index is refreshed and curl and
  gnupg are installed, the setup script is fetched twice with the same command line. What
  the first fetch printed (\<open>first\<close>) occurs nowhere in what follows: the command run with
  \<^verbatim>\<open>sudo -E bash -c\<close> is the standard output of the second fetch (\<open>second\<close>), and the
  package install comes after it, when it succeeded.
\<close>

theorem debian_fetches_twice_runs_second:
  assumes "spawn h [''sudo'', ''apt'', ''update''] (world st) = (Inr o1, w1)"
    and "spawn h [''sudo'', ''apt'', ''install'', ''-y'', ''curl'', ''gnupg''] w1 = (Inr o2, w2)"
    and "spawn h [''curl'', ''-fsSL'', ''https://deb.nodesource.com/setup_18.x''] w2 = (Inr first, w3)"
    and "spawn h [''curl'', ''-fsSL'', ''https://deb.nodesource.com/setup_18.x''] w3 = (Inr second, w4)"
    and "spawn h [''sudo'', ''-E'', ''bash'', ''-c'', second] w4 = (r5, w5)"
    and "spawn h [''sudo'', ''apt'', ''install'', ''-y'', ''nodejs''] w5 = (r6, w6)"
  shows "events (snd (install_nodejs_debian_based h st)) =
           events st @
           [Run [''sudo'', ''apt'', ''update''],
            Run [''sudo'', ''apt'', ''install'', ''-y'', ''curl'', ''gnupg''],
            Run [''curl'', ''-fsSL'', ''https://deb.nodesource.com/setup_18.x''],
            Run [''curl'', ''-fsSL'', ''https://deb.nodesource.com/setup_18.x''],
            Run [''sudo'', ''-E'', ''bash'', ''-c'', second]] @
           (if isl r5 then [] else [Run [''sudo'', ''apt'', ''install'', ''-y'', ''nodejs'']])
       \<and> fst (install_nodejs_debian_based h st) =
           (case r5 of
              Inl e \<Rightarrow> (if e = CalledProcessError then Inr False else Inl e)
            | Inr _ \<Rightarrow>
               (case r6 of
                  Inl e \<Rightarrow> (if e = CalledProcessError then Inr False else Inl e)
                | Inr _ \<Rightarrow> Inr True))"
proof -
  let ?st4 = "ran_cmd [''curl'', ''-fsSL'', ''https://deb.nodesource.com/setup_18.x''] w4
     (ran_cmd [''curl'', ''-fsSL'', ''https://deb.nodesource.com/setup_18.x''] w3
     (ran_cmd [''sudo'', ''apt'', ''install'', ''-y'', ''curl'', ''gnupg''] w2
     (ran_cmd [''sudo'', ''apt'', ''update''] w1 (say DebianBanner st))))"
  let ?tail = "seq (subprocess_run h [''sudo'', ''-E'', ''bash'', ''-c'', second]) (\<lambda>_.
        seq (subprocess_run h [''sudo'', ''apt'', ''install'', ''-y'', ''nodejs'']) (\<lambda>_.
        (\<lambda>s. (Inr True, say InstallOk s))))"
  have head: "install_nodejs_debian_based h st = handle_called_process_error (?tail ?st4)"
    using assms(1-4)
    by (simp add: install_nodejs_debian_based_def seq_run_ok curl_cmd_def deb_setup_script_def)
  have w4: "world ?st4 = w4" by simp
  show ?thesis
  proof (cases r5)
    case (Inl e)
    with assms(5) have "?tail ?st4 = (Inl e, ran_cmd [''sudo'', ''-E'', ''bash'', ''-c'', second] w5 ?st4)"
      by (simp add: seq_run_err)
    with Inl head show ?thesis
      by (cases e) (simp_all add: handle_called_process_error_def)
  next
    case (Inr out5)
    let ?st5 = "ran_cmd [''sudo'', ''-E'', ''bash'', ''-c'', second] w5 ?st4"
    have step5: "?tail ?st4 =
        seq (subprocess_run h [''sudo'', ''apt'', ''install'', ''-y'', ''nodejs''])
          (\<lambda>_. (\<lambda>s. (Inr True, say InstallOk s))) ?st5"
      using assms(5) Inr by (simp add: seq_run_ok)
    show ?thesis
    proof (cases r6)
      case (Inl e)
      with assms(6) step5 have "?tail ?st4 =
          (Inl e, ran_cmd [''sudo'', ''apt'', ''install'', ''-y'', ''nodejs''] w6 ?st5)"
        by (simp add: seq_run_err)
      with Inl Inr head show ?thesis
        by (cases e) (simp_all add: handle_called_process_error_def)
    next
      case (Inr out6)
      with assms(6) step5 have "?tail ?st4 =
          (Inr True, say InstallOk (ran_cmd [''sudo'', ''apt'', ''install'', ''-y'', ''nodejs''] w6 ?st5))"
        by (simp add: seq_run_ok)
      with Inr \<open>r5 = Inr out5\<close> head show ?thesis
        by (simp add: handle_called_process_error_def)
    qed
  qed
qed

lemma scripted_spawn:
  "spawn (scripted_host file plat uid) cmd (r # rs) = (r, rs)"
  by (simp add: scripted_host_def)

theorem debian_fetches_twice_runs_second_witness:
  "events (snd (install_nodejs_debian_based (scripted_host (Inl FileNotFoundError) ''Linux'' 0)
      (start [Inr [], Inr [], Inr ''echo first'', Inr ''echo second'', Inr [], Inr []]))) =
     [Run [''sudo'', ''apt'', ''update''],
      Run [''sudo'', ''apt'', ''install'', ''-y'', ''curl'', ''gnupg''],
      Run [''curl'', ''-fsSL'', ''https://deb.nodesource.com/setup_18.x''],
      Run [''curl'', ''-fsSL'', ''https://deb.nodesource.com/setup_18.x''],
      Run [''sudo'', ''-E'', ''bash'', ''-c'', ''echo second''],
      Run [''sudo'', ''apt'', ''install'', ''-y'', ''nodejs'']]
   \<and> fst (install_nodejs_debian_based (scripted_host (Inl FileNotFoundError) ''Linux'' 0)
      (start [Inr [], Inr [], Inr ''echo first'', Inr ''echo second'', Inr [], Inr []])) = Inr True"
proof -
  let ?h = "scripted_host (Inl FileNotFoundError) ''Linux'' 0"
  let ?st = "start [Inr [], Inr [], Inr ''echo first'', Inr ''echo second'', Inr [], Inr []]"
  have w: "world ?st = [Inr [], Inr [], Inr ''echo first'', Inr ''echo second'', Inr [], Inr []]"
    by (simp add: start_def)
  have e: "events ?st = []"
    by (simp add: start_def)
  note run = debian_fetches_twice_runs_second [of ?h ?st, unfolded w,
      OF scripted_spawn scripted_spawn scripted_spawn scripted_spawn scripted_spawn scripted_spawn]
  from run show ?thesis
    unfolding e by simp
qed

section \<open>What the strategies leave untouched\<close>

lemma setups_append [simp]: "setups (xs @ ys) = setups xs @ setups ys"
  by (induction xs rule: setups.induct) simp_all

lemma entered_append [simp]: "entered (xs @ ys) = entered xs @ entered ys"
  by (simp add: entered_def map_filter_def)

lemma entered_single [simp]: "entered [m] = (case banner m of None \<Rightarrow> [] | Some s \<Rightarrow> [s])"
  by (simp add: entered_def map_filter_def split: option.splits)

lemma keepsI: "(\<And>st. obs (snd (m st)) = obs st) \<Longrightarrow> keeps obs m"
  by (simp add: keeps_def)

lemma keepsD: "keeps obs m \<Longrightarrow> obs (snd (m st)) = obs st"
  by (simp add: keeps_def)

lemma keeps_seq:
  assumes "keeps obs m" and "\<And>v. keeps obs (f v)"
  shows "keeps obs (seq m f)"
proof (rule keepsI)
  fix st
  show "obs (snd (seq m f st)) = obs st"
  proof (cases "m st")
    case (Pair r st')
    then have st': "obs st' = obs st" using keepsD [OF assms(1), of st] by simp
    show ?thesis
    proof (cases r)
      case (Inl e)
      with Pair st' show ?thesis by (simp add: seq_def)
    next
      case (Inr v)
      with Pair st' keepsD [OF assms(2), of v st'] show ?thesis by (simp add: seq_def)
    qed
  qed
qed

lemma keeps_run_setups: "keeps (\<lambda>s. setups (events s)) (subprocess_run h cmd)"
  by (rule keepsI) (simp add: subprocess_run_def split: prod.splits)

lemma keeps_run_printed: "keeps (\<lambda>s. f (printed s)) (subprocess_run h cmd)"
  by (rule keepsI) (simp add: subprocess_run_def split: prod.splits)

lemma keeps_handle:
  assumes "keeps obs m" and "\<And>s. obs (say InstallFailed s) = obs s"
  shows "keeps obs (\<lambda>st. handle_called_process_error (m st))"
proof (rule keepsI)
  fix st
  obtain r st' where m: "m st = (r, st')" by (cases "m st")
  then have "obs st' = obs st" using keepsD [OF assms(1), of st] by simp
  with m assms(2) show "obs (snd (handle_called_process_error (m st))) = obs st"
    by (simp add: handle_called_process_error_def split: sum.splits exn.splits)
qed

lemma keeps_return:
  assumes "\<And>s. obs (g s) = obs s"
  shows "keeps obs (\<lambda>s. (r, g s))"
  using assms by (simp add: keeps_def)

lemma debian_chain_keeps:
  assumes "\<And>m s. banner m = None \<Longrightarrow> obs (say m s) = obs s"
    and "\<And>cmd. keeps obs (subprocess_run h cmd)"
  shows "obs (snd (install_nodejs_debian_based h st)) = obs (say DebianBanner st)"
proof -
  have "keeps obs (\<lambda>st. handle_called_process_error
       ((seq (subprocess_run h [''sudo'', ''apt'', ''update'']) (\<lambda>_.
        seq (subprocess_run h [''sudo'', ''apt'', ''install'', ''-y'', ''curl'', ''gnupg'']) (\<lambda>_.
        seq (subprocess_run h [''curl'', ''-fsSL'', deb_setup_script]) (\<lambda>_.
        seq (subprocess_run h (curl_cmd deb_setup_script)) (\<lambda>setup_script.
        seq (subprocess_run h [''sudo'', ''-E'', ''bash'', ''-c'', setup_script]) (\<lambda>_.
        seq (subprocess_run h [''sudo'', ''apt'', ''install'', ''-y'', ''nodejs'']) (\<lambda>_.
        (\<lambda>s. (Inr True, say InstallOk s))))))))) st))"
    by (intro keeps_handle keeps_seq assms(2) keeps_return assms(1)) simp_all
  from keepsD [OF this, of "say DebianBanner st"] show ?thesis
    by (simp add: install_nodejs_debian_based_def)
qed

lemma redhat_chain_keeps:
  assumes "\<And>m s. banner m = None \<Longrightarrow> obs (say m s) = obs s"
    and "\<And>cmd. keeps obs (subprocess_run h cmd)"
  shows "obs (snd (install_nodejs_redhat_based h st)) = obs (say RedHatBanner st)"
proof -
  have "keeps obs (\<lambda>st. handle_called_process_error
       ((seq (subprocess_run h [''sudo'', ''yum'', ''install'', ''-y'', ''curl'']) (\<lambda>_.
        seq (subprocess_run h (curl_cmd rpm_setup_script)) (\<lambda>setup_script.
        seq (subprocess_run h [''sudo'', ''-E'', ''bash'', ''-c'', setup_script]) (\<lambda>_.
        seq (subprocess_run h [''sudo'', ''yum'', ''install'', ''-y'', ''nodejs'']) (\<lambda>_.
        (\<lambda>s. (Inr True, say InstallOk s))))))) st))"
    by (intro keeps_handle keeps_seq assms(2) keeps_return assms(1)) simp_all
  from keepsD [OF this, of "say RedHatBanner st"] show ?thesis
    by (simp add: install_nodejs_redhat_based_def)
qed

lemma try_managers_keeps:
  assumes "\<And>m s. banner m = None \<Longrightarrow> obs (say m s) = obs s"
    and "\<And>cmd. keeps obs (subprocess_run h cmd)"
  shows "obs (snd (try_managers h pms st)) = obs st"
proof (induction pms arbitrary: st)
  case Nil
  show ?case by simp
next
  case (Cons p ps)
  obtain r st' where run: "subprocess_run h (''sudo'' # p) st = (r, st')"
    by (cases "subprocess_run h (''sudo'' # p) st")
  then have st': "obs st' = obs st"
    using keepsD [OF assms(2), of "''sudo'' # p" st] by simp
  show ?case
  proof (cases r)
    case (Inr out)
    with run st' assms(1) show ?thesis by simp
  next
    case (Inl e)
    with run st' Cons.IH [of st'] show ?thesis by (cases e) simp_all
  qed
qed

lemma fallback_keeps:
  assumes "\<And>m s. banner m = None \<Longrightarrow> obs (say m s) = obs s"
    and "\<And>cmd. keeps obs (subprocess_run h cmd)"
  shows "obs (snd (install_nodejs_fallback h st)) = obs (say FallbackBanner st)"
proof -
  obtain r st' where t: "try_managers h package_managers (say FallbackBanner st) = (r, st')"
    by (cases "try_managers h package_managers (say FallbackBanner st)")
  then have "obs st' = obs (say FallbackBanner st)"
    using try_managers_keeps [OF assms, of package_managers "say FallbackBanner st"] by simp
  with t assms(1) show ?thesis
    by (simp add: install_nodejs_fallback_def split: sum.splits bool.splits)
qed

section \<open>Concrete runs\<close>

lemma parse_ubuntu:
  "parse_os_release ubuntu_os_release =
     [''NAME'' \<mapsto> ''Ubuntu'', ''ID'' \<mapsto> ''ubuntu'', ''ID_LIKE'' \<mapsto> ''debian'']"
  by (simp add: parse_os_release_def ubuntu_os_release_def split_char_def parse_line_def strip_chars_def)

lemma lower_eval: "lower ''ubuntu'' = ''ubuntu''" "lower ''debian'' = ''debian''"
  by (simp_all add: lower_def lower_char_def upper_letters_def lower_letters_def)

lemma detect_ubuntu:
  "detect_linux_distro (scripted_host (Inr ubuntu_os_release) plat uid) st =
     (Some (''ubuntu'', ''debian''),
      say (DistroId ''ubuntu'') (say (DetectedSystem ''Ubuntu'')
        (st\<lparr>events := events st @ [ReadFile ''/etc/os-release'']\<rparr>)))"
  by (simp add: detect_linux_distro_def scripted_host_def parse_ubuntu dict_get_def lower_eval os_release_def Let_def)

lemmas run_defs =
  seq_def subprocess_run_def ran_cmd_def say_def handle_called_process_error_def
  install_nodejs_debian_based_def install_nodejs_redhat_based_def
  install_nodejs_fallback_def package_managers_def curl_cmd_def
  deb_setup_script_def rpm_setup_script_def check_node_installed_def node_version_cmd_def
  unsupported_then_fallback_def start_def

lemma scripted_simps [simp]:
  "spawn (scripted_host file plat uid) cmd (r # rs) = (r, rs)"
  "spawn (scripted_host file plat uid) cmd [] = (Inl FileNotFoundError, [])"
  "slurp (scripted_host file plat uid) ''/etc/os-release'' w = file"
  "platform_system (scripted_host file plat uid) = plat"
  "geteuid (scripted_host file plat uid) = uid"
  by (simp_all add: scripted_host_def os_release_def)

section \<open>After a failed family strategy\<close>

lemma debian_family_ubuntu: "debian_family ''ubuntu'' ''debian''"
  by (simp add: debian_family_def)

lemma try_managers_extends:
  "\<exists>rest. events (snd (try_managers h pms st)) = events st @ rest"
proof (induction pms arbitrary: st)
  case Nil
  show ?case by simp
next
  case (Cons p ps)
  obtain r w where sp: "spawn h (''sudo'' # p) (world st) = (r, w)"
    by (cases "spawn h (''sudo'' # p) (world st)")
  from Cons [of "ran_cmd (''sudo'' # p) w st"]
  obtain rest where
    "events (snd (try_managers h ps (ran_cmd (''sudo'' # p) w st))) =
       events st @ Run (''sudo'' # p) # rest"
    by auto
  with sp show ?case
    by (cases r) (auto simp: subprocess_run_def split: exn.splits)
qed

lemma fallback_first_attempt:
  "\<exists>rest. events (snd (install_nodejs_fallback h st)) =
     events st @ Run [''sudo'', ''apt'', ''install'', ''-y'', ''nodejs'', ''npm''] # rest"
proof -
  let ?apt = "[''sudo'', ''apt'', ''install'', ''-y'', ''nodejs'', ''npm'']"
  let ?tl = "tl package_managers"
  let ?st = "say FallbackBanner st"
  have pm: "package_managers = [''apt'', ''install'', ''-y'', ''nodejs'', ''npm''] # ?tl"
    by (simp add: package_managers_def)
  obtain r w where sp: "spawn h ?apt (world st) = (r, w)"
    by (cases "spawn h ?apt (world st)")
  obtain rest where rest:
    "events (snd (try_managers h ?tl (ran_cmd ?apt w ?st))) = events st @ Run ?apt # rest"
    using try_managers_extends [of h ?tl "ran_cmd ?apt w ?st"] by auto
  have "\<exists>rest. events (snd (try_managers h package_managers ?st)) = events st @ Run ?apt # rest"
  proof (cases r)
    case (Inr out)
    with sp show ?thesis
      by (subst pm) (simp add: subprocess_run_def)
  next
    case (Inl e)
    with sp rest show ?thesis
      by (subst pm) (cases e; simp add: subprocess_run_def)
  qed
  then obtain rest' where
    "events (snd (try_managers h package_managers ?st)) = events st @ Run ?apt # rest'"
    by blast
  then show ?thesis
    by (cases "try_managers h package_managers ?st")
       (auto simp: install_nodejs_fallback_def split: sum.splits bool.splits)
qed

text \<open>
  Claim C2, as amended. When the distribution belongs to the Debian or to the RedHat
  family and its strategy runs and returns False, \<^verbatim>\<open>install_nodejs\<close> goes on: it prints
  the line about an unsupported distribution and runs the fallback strategy, whose result
  is the result of the install. So a further install attempt does follow the failed
  strategy: the next command spawned is the fallback's first candidate,
  \<^verbatim>\<open>sudo apt install -y nodejs npm\<close>.
\<close>

theorem failed_family_strategy_falls_back:
  assumes "distro_id \<noteq> []"
  shows "(debian_family distro_id distro_id_like
            \<and> install_nodejs_debian_based h st = (Inr False, st') \<longrightarrow>
          dispatch h (Some (distro_id, distro_id_like)) st =
            install_nodejs_fallback h (say (UnsupportedDistro distro_id) st')
        \<and> (\<exists>rest. events (snd (dispatch h (Some (distro_id, distro_id_like)) st)) =
              events st' @ Run [''sudo'', ''apt'', ''install'', ''-y'', ''nodejs'', ''npm''] # rest))
       \<and> (\<not> debian_family distro_id distro_id_like \<and> redhat_family distro_id distro_id_like
            \<and> install_nodejs_redhat_based h st = (Inr False, st') \<longrightarrow>
          dispatch h (Some (distro_id, distro_id_like)) st =
            install_nodejs_fallback h (say (UnsupportedDistro distro_id) st')
        \<and> (\<exists>rest. events (snd (dispatch h (Some (distro_id, distro_id_like)) st)) =
              events st' @ Run [''sudo'', ''apt'', ''install'', ''-y'', ''nodejs'', ''npm''] # rest))"
proof -
  let ?fb = "install_nodejs_fallback h (say (UnsupportedDistro distro_id) st')"
  have next_attempt: "\<exists>rest. events (snd ?fb) =
      events st' @ Run [''sudo'', ''apt'', ''install'', ''-y'', ''nodejs'', ''npm''] # rest"
    using fallback_first_attempt [of h "say (UnsupportedDistro distro_id) st'"] by simp
  have deb: "dispatch h (Some (distro_id, distro_id_like)) st = ?fb"
    if "debian_family distro_id distro_id_like"
      and "install_nodejs_debian_based h st = (Inr False, st')"
    using that assms by (simp add: dispatch_def falsy_def unsupported_then_fallback_def)
  have rh: "dispatch h (Some (distro_id, distro_id_like)) st = ?fb"
    if "\<not> debian_family distro_id distro_id_like" and "redhat_family distro_id distro_id_like"
      and "install_nodejs_redhat_based h st = (Inr False, st')"
    using that assms by (simp add: dispatch_def falsy_def unsupported_then_fallback_def)
  from deb rh next_attempt show ?thesis by metis
qed

theorem failed_family_strategy_falls_back_witness:
  "dispatch (scripted_host (Inr ubuntu_os_release) ''Linux'' 0) (Some (''ubuntu'', ''debian''))
       (start [Inl CalledProcessError, Inr []]) =
     (Inr True,
      \<lparr>world = [],
       events = [Run [''sudo'', ''apt'', ''update''],
                 Run [''sudo'', ''apt'', ''install'', ''-y'', ''nodejs'', ''npm'']],
       printed = [DebianBanner, InstallFailed, UnsupportedDistro ''ubuntu'',
                  FallbackBanner, FallbackOk]\<rparr>)"
proof -
  let ?h = "scripted_host (Inr ubuntu_os_release) ''Linux'' 0"
  let ?st = "start [Inl CalledProcessError, Inr []]"
  let ?st' = "\<lparr>world = [Inr []], events = [Run [''sudo'', ''apt'', ''update'']],
               printed = [DebianBanner, InstallFailed]\<rparr>"
  have ne: "''ubuntu'' \<noteq> []" by simp
  have deb: "debian_family ''ubuntu'' ''debian''
      \<and> install_nodejs_debian_based ?h ?st = (Inr False, ?st')"
    by (simp add: debian_family_ubuntu run_defs)
  have fb: "install_nodejs_fallback ?h (say (UnsupportedDistro ''ubuntu'') ?st') =
     (Inr True,
      \<lparr>world = [],
       events = [Run [''sudo'', ''apt'', ''update''],
                 Run [''sudo'', ''apt'', ''install'', ''-y'', ''nodejs'', ''npm'']],
       printed = [DebianBanner, InstallFailed, UnsupportedDistro ''ubuntu'',
                  FallbackBanner, FallbackOk]\<rparr>)"
    by (simp add: run_defs)
  from failed_family_strategy_falls_back [OF ne, of "''debian''" ?h ?st ?st',
      THEN conjunct1, THEN mp, OF deb, THEN conjunct1]
  show ?thesis unfolding fb .
qed

text \<open>
  The claim as stated fails: on an Ubuntu host where \<^verbatim>\<open>sudo apt update\<close> exits non-zero,
  the Debian strategy returns False, the fallback strategy then installs with apt, and the
  run ends with exit status 0 and the call of \<^verbatim>\<open>setup\<close>.
\<close>

theorem failed_debian_strategy_counterexample:
  "main (scripted_host (Inr ubuntu_os_release) ''Linux'' 0)
       (start [Inl FileNotFoundError, Inl CalledProcessError, Inr [], Inr ''v12.22.9'']) =
     (Inr 0,
      \<lparr>world = [],
       events = [Run [''node'', ''--version''],
                 ReadFile ''/etc/os-release'',
                 Run [''sudo'', ''apt'', ''update''],
                 Run [''sudo'', ''apt'', ''install'', ''-y'', ''nodejs'', ''npm''],
                 Run [''node'', ''--version''],
                 Setup ''http''],
       printed = [Checking, NodeMissing, StartInstall, DetectedSystem ''Ubuntu'',
                  DistroId ''ubuntu'', DebianBanner, InstallFailed,
                  UnsupportedDistro ''ubuntu'', FallbackBanner, FallbackOk,
                  NodeInstalled ''v12.22.9'', ConfigDone]\<rparr>)"
proof -
  let ?h = "scripted_host (Inr ubuntu_os_release) ''Linux'' 0"
  have strip: "strip ''v12.22.9'' = ''v12.22.9''"
    by (simp add: strip_def strip_chars_def whitespace_def)
  have check1: "check_node_installed ?h
      \<lparr>world = [Inl FileNotFoundError, Inl CalledProcessError, Inr [], Inr ''v12.22.9''],
       events = [], printed = [Checking]\<rparr> =
      (Inr False, \<lparr>world = [Inl CalledProcessError, Inr [], Inr ''v12.22.9''],
         events = [Run [''node'', ''--version'']], printed = [Checking, NodeMissing]\<rparr>)"
    by (simp add: run_defs)
  have inst: "install_nodejs ?h
      \<lparr>world = [Inl CalledProcessError, Inr [], Inr ''v12.22.9''],
         events = [Run [''node'', ''--version'']], printed = [Checking, NodeMissing, StartInstall]\<rparr> =
      (Inr True, \<lparr>world = [Inr ''v12.22.9''],
         events = [Run [''node'', ''--version''], ReadFile ''/etc/os-release'',
                 Run [''sudo'', ''apt'', ''update''],
                 Run [''sudo'', ''apt'', ''install'', ''-y'', ''nodejs'', ''npm'']],
         printed = [Checking, NodeMissing, StartInstall, DetectedSystem ''Ubuntu'',
                  DistroId ''ubuntu'', DebianBanner, InstallFailed,
                  UnsupportedDistro ''ubuntu'', FallbackBanner, FallbackOk]\<rparr>)"
    by (simp add: install_nodejs_def detect_ubuntu dispatch_def falsy_def debian_family_ubuntu run_defs)
  have check2: "check_node_installed ?h
      \<lparr>world = [Inr ''v12.22.9''],
         events = [Run [''node'', ''--version''], ReadFile ''/etc/os-release'',
                 Run [''sudo'', ''apt'', ''update''],
                 Run [''sudo'', ''apt'', ''install'', ''-y'', ''nodejs'', ''npm'']],
         printed = [Checking, NodeMissing, StartInstall, DetectedSystem ''Ubuntu'',
                  DistroId ''ubuntu'', DebianBanner, InstallFailed,
                  UnsupportedDistro ''ubuntu'', FallbackBanner, FallbackOk]\<rparr> =
      (Inr True, \<lparr>world = [],
         events = [Run [''node'', ''--version''], ReadFile ''/etc/os-release'',
                 Run [''sudo'', ''apt'', ''update''],
                 Run [''sudo'', ''apt'', ''install'', ''-y'', ''nodejs'', ''npm''],
                 Run [''node'', ''--version'']],
         printed = [Checking, NodeMissing, StartInstall, DetectedSystem ''Ubuntu'',
                  DistroId ''ubuntu'', DebianBanner, InstallFailed,
                  UnsupportedDistro ''ubuntu'', FallbackBanner, FallbackOk,
                  NodeInstalled ''v12.22.9'']\<rparr>)"
    by (simp add: run_defs strip)
  show ?thesis
    by (simp add: main_def start_def say_def check1 inst check2 finish_def setup_call_def)
qed

section \<open>Which strategy is started\<close>

lemma starts_with_iff: "starts_with p s \<longleftrightarrow> (\<exists>b. s = p @ b)"
  by (induction p s rule: starts_with.induct) auto

lemma str_contains_iff: "str_contains p s \<longleftrightarrow> (\<exists>a b. s = a @ p @ b)"
proof (induction s)
  case Nil
  show ?case by auto
next
  case (Cons c cs)
  have "(\<exists>a b. c # cs = a @ p @ b) \<longleftrightarrow> (\<exists>b. c # cs = p @ b) \<or> (\<exists>a b. cs = a @ p @ b)"
  proof
    assume "\<exists>a b. c # cs = a @ p @ b"
    then obtain a b where ab: "c # cs = a @ p @ b" by blast
    show "(\<exists>b. c # cs = p @ b) \<or> (\<exists>a b. cs = a @ p @ b)"
    proof (cases a)
      case Nil
      with ab show ?thesis by auto
    next
      case (Cons x a')
      with ab have "cs = a' @ p @ b" by simp
      then show ?thesis by blast
    qed
  next
    assume "(\<exists>b. c # cs = p @ b) \<or> (\<exists>a b. cs = a @ p @ b)"
    then show "\<exists>a b. c # cs = a @ p @ b"
    proof
      assume "\<exists>b. c # cs = p @ b"
      then obtain b where "c # cs = [] @ p @ b" by auto
      then show ?thesis by blast
    next
      assume "\<exists>a b. cs = a @ p @ b"
      then obtain a b where "c # cs = (c # a) @ p @ b" by auto
      then show ?thesis by blast
    qed
  qed
  with Cons show ?case by (simp add: starts_with_iff)
qed

lemma entered_say [simp]:
  "entered (printed (say m s)) = entered (printed s) @ (case banner m of None \<Rightarrow> [] | Some k \<Rightarrow> [k])"
  by simp

lemma debian_entered:
  "entered (printed (snd (install_nodejs_debian_based h st))) = entered (printed st) @ [Debian]"
  using debian_chain_keeps [where obs = "\<lambda>s. entered (printed s)", OF _ keeps_run_printed, of h st]
  by simp

lemma redhat_entered:
  "entered (printed (snd (install_nodejs_redhat_based h st))) = entered (printed st) @ [RedHat]"
  using redhat_chain_keeps [where obs = "\<lambda>s. entered (printed s)", OF _ keeps_run_printed, of h st]
  by simp

lemma fallback_entered:
  "entered (printed (snd (install_nodejs_fallback h st))) = entered (printed st) @ [Fallback]"
  using fallback_keeps [where obs = "\<lambda>s. entered (printed s)", OF _ keeps_run_printed, of h st]
  by simp

lemma family_then_fallback_entered:
  assumes "entered (printed (snd (m st))) = entered (printed st) @ [k]"
  shows "\<exists>rest. entered (printed (snd
           (case m st of
              (Inl e, st') \<Rightarrow> (Inl e, st')
            | (Inr True, st') \<Rightarrow> (Inr True, st')
            | (Inr False, st') \<Rightarrow> unsupported_then_fallback h distro_id st'))) =
           entered (printed st) @ k # rest
         \<and> (rest = [] \<or> rest = [Fallback])"
proof -
  obtain r st' where m: "m st = (r, st')" by (cases "m st")
  with assms have e: "entered (printed st') = entered (printed st) @ [k]" by simp
  show ?thesis
  proof (cases "r = Inr False")
    case True
    with m e show ?thesis
      by (simp add: unsupported_then_fallback_def fallback_entered)
  next
    case False
    with m e show ?thesis
      by (cases r) (auto split: bool.splits)
  qed
qed

text \<open>
  Claim C1, as amended. For every result of the detection, \<^verbatim>\<open>install_nodejs\<close> starts
  exactly one strategy first: the fallback when there is no id or the id is empty; else
  the Debian strategy when the id is debian or ubuntu, or the lower-cased \<open>ID_LIKE\<close> text
  contains debian or ubuntu as a substring; else the RedHat strategy when the id is rhel,
  centos or fedora, or the \<open>ID_LIKE\<close> text contains rhel or fedora as a substring; else
  the fallback. The only strategy that can follow the first one is the fallback.
\<close>

theorem dispatch_decision_table:
  "\<exists>rest. entered (printed (snd (dispatch h d st))) =
      entered (printed st) @
      (case d of
         None \<Rightarrow> Fallback
       | Some (distro_id, distro_id_like) \<Rightarrow>
           if distro_id = [] then Fallback
           else if distro_id \<in> {''debian'', ''ubuntu''}
                   \<or> (\<exists>a b. distro_id_like = a @ ''debian'' @ b)
                   \<or> (\<exists>a b. distro_id_like = a @ ''ubuntu'' @ b) then Debian
           else if distro_id \<in> {''rhel'', ''centos'', ''fedora''}
                   \<or> (\<exists>a b. distro_id_like = a @ ''rhel'' @ b)
                   \<or> (\<exists>a b. distro_id_like = a @ ''fedora'' @ b) then RedHat
           else Fallback) # rest
    \<and> (rest = [] \<or> rest = [Fallback])"
proof (cases d)
  case None
  then show ?thesis
    by (simp add: dispatch_def falsy_def fallback_entered)
next
  case (Some p)
  obtain distro_id distro_id_like where p: "p = (distro_id, distro_id_like)" by (cases p)
  have deb: "debian_family distro_id distro_id_like \<longleftrightarrow>
      distro_id \<in> {''debian'', ''ubuntu''}
        \<or> (\<exists>a b. distro_id_like = a @ ''debian'' @ b)
        \<or> (\<exists>a b. distro_id_like = a @ ''ubuntu'' @ b)"
    unfolding str_contains_iff [symmetric] by (simp add: debian_family_def)
  have rh: "redhat_family distro_id distro_id_like \<longleftrightarrow>
      distro_id \<in> {''rhel'', ''centos'', ''fedora''}
        \<or> (\<exists>a b. distro_id_like = a @ ''rhel'' @ b)
        \<or> (\<exists>a b. distro_id_like = a @ ''fedora'' @ b)"
    unfolding str_contains_iff [symmetric] by (simp add: redhat_family_def)
  consider (empty) "distro_id = []"
    | (debian) "distro_id \<noteq> []" "debian_family distro_id distro_id_like"
    | (redhat) "distro_id \<noteq> []" "\<not> debian_family distro_id distro_id_like"
        "redhat_family distro_id distro_id_like"
    | (other) "distro_id \<noteq> []" "\<not> debian_family distro_id distro_id_like"
        "\<not> redhat_family distro_id distro_id_like"
    by blast
  then show ?thesis
  proof cases
    case empty
    with Some p show ?thesis
      by (simp add: dispatch_def falsy_def fallback_entered)
  next
    case debian
    from family_then_fallback_entered [where m = "install_nodejs_debian_based h" and st = st
        and h = h and distro_id = distro_id, OF debian_entered]
    show ?thesis
      using debian Some p deb [symmetric] by (simp add: dispatch_def falsy_def)
  next
    case redhat
    from family_then_fallback_entered [where m = "install_nodejs_redhat_based h" and st = st
        and h = h and distro_id = distro_id, OF redhat_entered]
    show ?thesis
      using redhat Some p deb [symmetric] rh [symmetric] by (simp add: dispatch_def falsy_def)
  next
    case other
    then show ?thesis
      using Some p deb [symmetric] rh [symmetric]
      by (simp add: dispatch_def falsy_def unsupported_then_fallback_def fallback_entered)
  qed
qed

lemma hd_of_table:
  "\<exists>rest. xs = [] @ k # rest \<and> (rest = [] \<or> rest = [Fallback]) \<Longrightarrow> hd xs = k"
  by auto

theorem dispatch_decision_table_witness:
  "hd (entered (printed (snd (dispatch (scripted_host (Inl FileNotFoundError) ''Linux'' 0)
         (Some (''linuxmint'', ''ubuntu debian'')) (start []))))) = Debian
 \<and> hd (entered (printed (snd (dispatch (scripted_host (Inl FileNotFoundError) ''Linux'' 0)
         (Some (''rocky'', ''rhel centos fedora'')) (start []))))) = RedHat
 \<and> hd (entered (printed (snd (dispatch (scripted_host (Inl FileNotFoundError) ''Linux'' 0)
         (Some (''arch'', '''')) (start []))))) = Fallback
 \<and> hd (entered (printed (snd (dispatch (scripted_host (Inl FileNotFoundError) ''Linux'' 0)
         None (start []))))) = Fallback"
proof -
  let ?h = "scripted_host (Inl FileNotFoundError) ''Linux'' 0"
  have e: "entered (printed (start ([] :: (exn + string) list))) = []"
    by (simp add: start_def entered_def map_filter_def)
  have mint: "(case Some (''linuxmint'', ''ubuntu debian'') of
         None \<Rightarrow> Fallback
       | Some (distro_id, distro_id_like) \<Rightarrow>
           if distro_id = [] then Fallback
           else if distro_id \<in> {''debian'', ''ubuntu''}
                   \<or> str_contains ''debian'' distro_id_like
                   \<or> str_contains ''ubuntu'' distro_id_like then Debian
           else if distro_id \<in> {''rhel'', ''centos'', ''fedora''}
                   \<or> str_contains ''rhel'' distro_id_like
                   \<or> str_contains ''fedora'' distro_id_like then RedHat
           else Fallback) = Debian"
    by simp
  have rocky: "(case Some (''rocky'', ''rhel centos fedora'') of
         None \<Rightarrow> Fallback
       | Some (distro_id, distro_id_like) \<Rightarrow>
           if distro_id = [] then Fallback
           else if distro_id \<in> {''debian'', ''ubuntu''}
                   \<or> str_contains ''debian'' distro_id_like
                   \<or> str_contains ''ubuntu'' distro_id_like then Debian
           else if distro_id \<in> {''rhel'', ''centos'', ''fedora''}
                   \<or> str_contains ''rhel'' distro_id_like
                   \<or> str_contains ''fedora'' distro_id_like then RedHat
           else Fallback) = RedHat"
    by simp
  have arch: "(case Some (''arch'', '''') of
         None \<Rightarrow> Fallback
       | Some (distro_id, distro_id_like) \<Rightarrow>
           if distro_id = [] then Fallback
           else if distro_id \<in> {''debian'', ''ubuntu''}
                   \<or> str_contains ''debian'' distro_id_like
                   \<or> str_contains ''ubuntu'' distro_id_like then Debian
           else if distro_id \<in> {''rhel'', ''centos'', ''fedora''}
                   \<or> str_contains ''rhel'' distro_id_like
                   \<or> str_contains ''fedora'' distro_id_like then RedHat
           else Fallback) = Fallback"
    by simp
  note t = dispatch_decision_table [where h = ?h and st = "start []",
      unfolded str_contains_iff [symmetric] e]
  have "hd (entered (printed (snd (dispatch ?h (Some (''linuxmint'', ''ubuntu debian'')) (start []))))) = Debian"
    using t [of "Some (''linuxmint'', ''ubuntu debian'')", unfolded mint] by (rule hd_of_table)
  moreover
  have "hd (entered (printed (snd (dispatch ?h (Some (''rocky'', ''rhel centos fedora'')) (start []))))) = RedHat"
    using t [of "Some (''rocky'', ''rhel centos fedora'')", unfolded rocky] by (rule hd_of_table)
  moreover
  have "hd (entered (printed (snd (dispatch ?h (Some (''arch'', '''')) (start []))))) = Fallback"
    using t [of "Some (''arch'', '''')", unfolded arch] by (rule hd_of_table)
  moreover
  have "hd (entered (printed (snd (dispatch ?h None (start []))))) = Fallback"
    using t [of None] by (auto simp: hd_append)
  ultimately show ?thesis by blast
qed

text \<open>
  The claim as stated fails at two inputs. With an empty id and \<open>ID_LIKE\<close> debian the
  table of the specification selects Debian, and the code starts the fallback. With id
  kylin and \<open>ID_LIKE\<close> ubuntukylin no token is a family name and the table selects the
  fallback, and the code starts the Debian strategy, because ubuntu is a substring.
\<close>

theorem select_by_tokens_counterexample:
  "spec_select '''' ''debian'' = Debian
 \<and> entered (printed (snd (dispatch (scripted_host (Inl FileNotFoundError) ''Linux'' 0)
       (Some ('''', ''debian'')) (start [])))) = [Fallback]
 \<and> spec_select ''kylin'' ''ubuntukylin'' = Fallback
 \<and> entered (printed (snd (dispatch (scripted_host (Inl FileNotFoundError) ''Linux'' 0)
       (Some (''kylin'', ''ubuntukylin'')) (start [])))) = [Debian]"
proof -
  let ?h = "scripted_host (Inl FileNotFoundError) ''Linux'' 0"
  have e: "entered (printed (start ([] :: (exn + string) list))) = []"
    by (simp add: start_def entered_def map_filter_def)
  have low: "lower ''debian'' = ''debian''" "lower ''ubuntukylin'' = ''ubuntukylin''"
    by (simp_all add: lower_def lower_char_def upper_letters_def lower_letters_def)
  have tok: "split_whitespace ''debian'' = [''debian'']"
    "split_whitespace ''ubuntukylin'' = [''ubuntukylin'']"
    by (simp_all add: split_whitespace_def whitespace_def)
  have s1: "spec_select '''' ''debian'' = Debian"
    by (simp add: spec_select_def low tok)
  have s2: "spec_select ''kylin'' ''ubuntukylin'' = Fallback"
    by (simp add: spec_select_def low tok)
  have d1: "entered (printed (snd (dispatch ?h (Some ('''', ''debian'')) (start [])))) = [Fallback]"
    by (simp add: dispatch_def falsy_def fallback_entered e)
  have "debian_family ''kylin'' ''ubuntukylin''"
    by (simp add: debian_family_def)
  then have d2: "entered (printed (snd (dispatch ?h (Some (''kylin'', ''ubuntukylin'')) (start [])))) = [Debian]"
    by (simp add: dispatch_def falsy_def run_defs entered_def map_filter_def)
  from s1 s2 d1 d2 show ?thesis by blast
qed

section \<open>Calls of setup\<close>

lemma setups_say [simp]: "setups (events (say m s)) = setups (events s)"
  by simp

lemma check_keeps_setups:
  "setups (events (snd (check_node_installed h st))) = setups (events st)"
  by (simp add: check_node_installed_def subprocess_run_def
      split: prod.splits sum.splits exn.splits)

lemma check_events:
  "events (snd (check_node_installed h st)) = events st @ [Run [''node'', ''--version'']]"
  by (simp add: check_node_installed_def subprocess_run_def node_version_cmd_def
      split: prod.splits sum.splits exn.splits)

lemma detect_keeps_setups:
  "setups (events (snd (detect_linux_distro h st))) = setups (events st)"
  by (simp add: detect_linux_distro_def Let_def split: sum.splits)

lemma debian_keeps_setups:
  "setups (events (snd (install_nodejs_debian_based h st))) = setups (events st)"
  using debian_chain_keeps [where obs = "\<lambda>s. setups (events s)", OF _ keeps_run_setups, of h st]
  by simp

lemma redhat_keeps_setups:
  "setups (events (snd (install_nodejs_redhat_based h st))) = setups (events st)"
  using redhat_chain_keeps [where obs = "\<lambda>s. setups (events s)", OF _ keeps_run_setups, of h st]
  by simp

lemma fallback_keeps_setups:
  "setups (events (snd (install_nodejs_fallback h st))) = setups (events st)"
  using fallback_keeps [where obs = "\<lambda>s. setups (events s)", OF _ keeps_run_setups, of h st]
  by simp

lemma family_keeps_setups:
  assumes "\<And>s. setups (events (snd (m s))) = setups (events s)"
  shows "setups (events (snd
           (case m st of
              (Inl e, st') \<Rightarrow> (Inl e, st')
            | (Inr True, st') \<Rightarrow> (Inr True, st')
            | (Inr False, st') \<Rightarrow> unsupported_then_fallback h distro_id st'))) =
         setups (events st)"
proof -
  obtain r st' where m: "m st = (r, st')" by (cases "m st")
  with assms [of st] have "setups (events st') = setups (events st)" by simp
  with m show ?thesis
    by (simp add: unsupported_then_fallback_def fallback_keeps_setups
        split: sum.splits bool.splits)
qed

lemma dispatch_keeps_setups:
  "setups (events (snd (dispatch h d st))) = setups (events st)"
proof (cases d)
  case None
  then show ?thesis by (simp add: dispatch_def falsy_def fallback_keeps_setups)
next
  case (Some p)
  obtain i l where p: "p = (i, l)" by (cases p)
  show ?thesis
    unfolding dispatch_def Some p
    using family_keeps_setups [where m = "install_nodejs_debian_based h" and h = h
        and st = st and distro_id = i, OF debian_keeps_setups]
      family_keeps_setups [where m = "install_nodejs_redhat_based h" and h = h
        and st = st and distro_id = i, OF redhat_keeps_setups]
    by (simp add: falsy_def fallback_keeps_setups unsupported_then_fallback_def)
qed

lemma install_keeps_setups:
  "setups (events (snd (install_nodejs h st))) = setups (events st)"
proof -
  obtain d st' where det: "detect_linux_distro h st = (d, st')"
    by (cases "detect_linux_distro h st")
  then have "setups (events st') = setups (events st)"
    using detect_keeps_setups [of h st] by simp
  with det show ?thesis
    by (simp add: install_nodejs_def dispatch_keeps_setups)
qed

lemma finish_simps [simp]:
  "fst (finish st) = Inr 0"
  "events (snd (finish st)) = events st @ [Setup ''http'']"
  "printed (snd (finish st)) = printed st"
  "world (snd (finish st)) = world st"
  by (simp_all add: finish_def setup_call_def)

section \<open>The run as a whole\<close>

lemma gate_passed_simps [simp]:
  "world (gate_passed h st) = world st"
  "events (gate_passed h st) = events st"
  by (simp_all add: gate_passed_def)

lemma main_linux:
  "platform_system h = ''Linux'' \<Longrightarrow>
   main h st =
     (case check_node_installed h (gate_passed h st) of
        (Inl e, st3) \<Rightarrow> (Inl e, st3)
      | (Inr True, st3) \<Rightarrow> finish (say EnvReady st3)
      | (Inr False, st3) \<Rightarrow>
          (case install_nodejs h (say StartInstall st3) of
             (Inl e, st4) \<Rightarrow> (Inl e, st4)
           | (Inr True, st4) \<Rightarrow>
               (case check_node_installed h st4 of
                  (Inl e, st5) \<Rightarrow> (Inl e, st5)
                | (Inr True, st5) \<Rightarrow> finish (say ConfigDone st5)
                | (Inr False, st5) \<Rightarrow> (Inr 1, say VerifyFailed st5))
           | (Inr False, st4) \<Rightarrow> (Inr 1, say NodeInstallFailed st4)))"
  by (simp add: main_def gate_passed_def Let_def)

text \<open>
  Claim C4. On a Linux host where the first version query succeeds, the run consists of
  that query and the call of \<^verbatim>\<open>setup\<close> with http, and exits with status 0: the os-release
  file is not read, no other command is spawned and no strategy is started.
\<close>

theorem main_short_circuit:
  assumes "platform_system h = ''Linux''"
    and "spawn h [''node'', ''--version''] (world st) = (Inr out, w)"
  shows "fst (main h st) = Inr 0
       \<and> exit_status (fst (main h st)) = 0
       \<and> events (snd (main h st)) = events st @ [Run [''node'', ''--version''], Setup ''http'']
       \<and> entered (printed (snd (main h st))) = entered (printed st)
       \<and> world (snd (main h st)) = w"
proof -
  have "check_node_installed h (gate_passed h st) =
      (Inr True, say (NodeInstalled (strip out))
         (ran_cmd [''node'', ''--version''] w (gate_passed h st)))"
    using assms(2)
    by (simp add: check_node_installed_def subprocess_run_def node_version_cmd_def)
  then have "main h st = finish (say EnvReady (say (NodeInstalled (strip out))
         (ran_cmd [''node'', ''--version''] w (gate_passed h st))))"
    using assms(1) by (simp add: main_linux)
  then show ?thesis
    by (simp add: exit_status_def gate_passed_def entered_def map_filter_def)
qed

text \<open>
  Claim C5. When the first presence check reports the runtime absent, the install reports
  success and the check after it still reports the runtime absent, the run exits with
  status 1: the last thing it does to the host is that second version query, nothing is
  retried, and \<^verbatim>\<open>setup\<close> is not called.
\<close>

theorem main_verification_failure:
  assumes "platform_system h = ''Linux''"
    and "check_node_installed h
           (say Checking (if geteuid h \<noteq> 0 then say SudoAdvised st else st)) = (Inr False, st3)"
    and "install_nodejs h (say StartInstall st3) = (Inr True, st4)"
    and "check_node_installed h st4 = (Inr False, st5)"
  shows "main h st = (Inr 1, say VerifyFailed st5)
       \<and> exit_status (fst (main h st)) = 1
       \<and> events (snd (main h st)) = events st4 @ [Run [''node'', ''--version'']]
       \<and> setups (events (snd (main h st))) = setups (events st)"
proof -
  have m: "main h st = (Inr 1, say VerifyFailed st5)"
    using assms by (simp add: main_linux gate_passed_def)
  have e5: "events st5 = events st4 @ [Run [''node'', ''--version'']]"
    using check_events [of h st4] assms(4) by simp
  have "setups (events st3) = setups (events st)"
    using check_keeps_setups [of h "gate_passed h st"] assms(2) by (simp add: gate_passed_def)
  moreover have "setups (events st4) = setups (events st3)"
    using install_keeps_setups [of h "say StartInstall st3"] assms(3) by simp
  ultimately have "setups (events st5) = setups (events st)"
    using e5 by simp
  with m e5 show ?thesis by (simp add: exit_status_def)
qed

text \<open>
  Claim C9. A run calls \<^verbatim>\<open>setup\<close> once, with the mode http, when it ends with exit status
  0, and not at all otherwise. It ends with status 0, the call of \<^verbatim>\<open>setup\<close> being the last
  event, on both success paths: the runtime is present at the first check, or it is absent,
  the install reports success and the second check finds it. The exit status is 0 or 1.
\<close>

theorem setup_exactly_on_success:
  "setups (events (snd (main h st))) =
     setups (events st) @ (if fst (main h st) = Inr 0 then [''http''] else [])
 \<and> (platform_system h = ''Linux''
      \<and> fst (check_node_installed h
           (say Checking (if geteuid h \<noteq> 0 then say SudoAdvised st else st))) = Inr True
    \<longrightarrow> fst (main h st) = Inr 0 \<and> last (events (snd (main h st))) = Setup ''http'')
 \<and> (\<forall>st3 st4. platform_system h = ''Linux''
      \<and> check_node_installed h
           (say Checking (if geteuid h \<noteq> 0 then say SudoAdvised st else st)) = (Inr False, st3)
      \<and> install_nodejs h (say StartInstall st3) = (Inr True, st4)
      \<and> fst (check_node_installed h st4) = Inr True
    \<longrightarrow> fst (main h st) = Inr 0 \<and> last (events (snd (main h st))) = Setup ''http'')
 \<and> exit_status (fst (main h st)) \<in> {0, 1}
 \<and> (exit_status (fst (main h st)) = 0 \<longleftrightarrow> fst (main h st) = Inr 0)"
proof -
  let ?g = "gate_passed h st"
  have g: "say Checking (if geteuid h \<noteq> 0 then say SudoAdvised st else st) = ?g"
    by (simp add: gate_passed_def)
  obtain r3 st3 where c1: "check_node_installed h ?g = (r3, st3)"
    by (cases "check_node_installed h ?g")
  have s3: "setups (events st3) = setups (events st)"
    using check_keeps_setups [of h ?g] c1 by simp
  obtain r4 st4 where ins: "install_nodejs h (say StartInstall st3) = (r4, st4)"
    by (cases "install_nodejs h (say StartInstall st3)")
  have s4: "setups (events st4) = setups (events st)"
    using install_keeps_setups [of h "say StartInstall st3"] ins s3 by simp
  obtain r5 st5 where c2: "check_node_installed h st4 = (r5, st5)"
    by (cases "check_node_installed h st4")
  have s5: "setups (events st5) = setups (events st)"
    using check_keeps_setups [of h st4] c2 s4 by simp
  have count: "setups (events (snd (main h st))) =
     setups (events st) @ (if fst (main h st) = Inr 0 then [''http''] else [])"
   and code: "exit_status (fst (main h st)) \<in> {0, 1}"
   and zero: "exit_status (fst (main h st)) = 0 \<longleftrightarrow> fst (main h st) = Inr 0"
  proof -
    show "setups (events (snd (main h st))) =
       setups (events st) @ (if fst (main h st) = Inr 0 then [''http''] else [])"
    proof (cases "platform_system h = ''Linux''")
      case False
      then show ?thesis by (simp add: main_def)
    next
      case True
      show ?thesis
        using c1 ins c2 s3 s4 s5
        by (simp add: main_linux [OF True] split: sum.splits bool.splits)
    qed
    show "exit_status (fst (main h st)) \<in> {0, 1}"
    proof (cases "platform_system h = ''Linux''")
      case False
      then show ?thesis by (simp add: main_def exit_status_def)
    next
      case True
      show ?thesis
        using c1 ins c2
        by (simp add: main_linux [OF True] exit_status_def split: sum.splits bool.splits)
    qed
    show "exit_status (fst (main h st)) = 0 \<longleftrightarrow> fst (main h st) = Inr 0"
    proof (cases "platform_system h = ''Linux''")
      case False
      then show ?thesis by (simp add: main_def exit_status_def)
    next
      case True
      show ?thesis
        using c1 ins c2
        by (simp add: main_linux [OF True] exit_status_def split: sum.splits bool.splits)
    qed
  qed
  have pre: "fst (main h st) = Inr 0 \<and> last (events (snd (main h st))) = Setup ''http''"
    if "platform_system h = ''Linux''" and "fst (check_node_installed h ?g) = Inr True"
    using that c1 by (simp add: main_linux)
  have post: "fst (main h st) = Inr 0 \<and> last (events (snd (main h st))) = Setup ''http''"
    if "platform_system h = ''Linux''" and "check_node_installed h ?g = (Inr False, st3')"
      and "install_nodejs h (say StartInstall st3') = (Inr True, st4')"
      and "fst (check_node_installed h st4') = Inr True" for st3' st4'
  proof -
    note prems = that
    obtain st5' where "check_node_installed h st4' = (Inr True, st5')"
      using prems(4) by (cases "check_node_installed h st4'") simp
    with prems show ?thesis by (simp add: main_linux)
  qed
  from count code zero pre post show ?thesis
    unfolding g by blast
qed

lemma strip_version: "strip ''v18.19.0'' = ''v18.19.0''"
  by (simp add: strip_def strip_chars_def whitespace_def)

theorem main_short_circuit_witness:
  "fst (main (scripted_host (Inr ubuntu_os_release) ''Linux'' 1000) (start [Inr ''v18.19.0''])) = Inr 0
 \<and> events (snd (main (scripted_host (Inr ubuntu_os_release) ''Linux'' 1000)
       (start [Inr ''v18.19.0'']))) = [Run [''node'', ''--version''], Setup ''http'']"
proof -
  let ?h = "scripted_host (Inr ubuntu_os_release) ''Linux'' 1000"
  let ?st = "start [Inr ''v18.19.0'']"
  have linux: "platform_system ?h = ''Linux''" by simp
  have node: "spawn ?h [''node'', ''--version''] (world ?st) = (Inr ''v18.19.0'', [])"
    by (simp add: start_def)
  have e: "events ?st = []" by (simp add: start_def)
  from main_short_circuit [OF linux node] show ?thesis
    unfolding e by simp
qed

lemma ubuntu_install_all_ok:
  "install_nodejs (scripted_host (Inr ubuntu_os_release) ''Linux'' uid)
     \<lparr>world = Inr [] # Inr [] # Inr ''echo a'' # Inr ''echo b'' # Inr [] # Inr [] # rest,
      events = [Run [''node'', ''--version'']],
      printed = [Checking, NodeMissing, StartInstall]\<rparr> =
   (Inr True,
    \<lparr>world = rest,
     events = [Run [''node'', ''--version''],
               ReadFile ''/etc/os-release'',
               Run [''sudo'', ''apt'', ''update''],
               Run [''sudo'', ''apt'', ''install'', ''-y'', ''curl'', ''gnupg''],
               Run [''curl'', ''-fsSL'', ''https://deb.nodesource.com/setup_18.x''],
               Run [''curl'', ''-fsSL'', ''https://deb.nodesource.com/setup_18.x''],
               Run [''sudo'', ''-E'', ''bash'', ''-c'', ''echo b''],
               Run [''sudo'', ''apt'', ''install'', ''-y'', ''nodejs'']],
     printed = [Checking, NodeMissing, StartInstall, DetectedSystem ''Ubuntu'',
                DistroId ''ubuntu'', DebianBanner, InstallOk]\<rparr>)"
  by (simp add: install_nodejs_def detect_ubuntu dispatch_def falsy_def debian_family_ubuntu run_defs)

lemma first_check_missing:
  "check_node_installed (scripted_host file plat uid)
     (say Checking (start (Inl FileNotFoundError # rest))) =
   (Inr False,
    \<lparr>world = rest, events = [Run [''node'', ''--version'']],
     printed = [Checking, NodeMissing]\<rparr>)"
  by (simp add: run_defs)

theorem main_verification_failure_witness:
  "main (scripted_host (Inr ubuntu_os_release) ''Linux'' 0)
     (start [Inl FileNotFoundError, Inr [], Inr [], Inr ''echo a'', Inr ''echo b'', Inr [], Inr [],
             Inl FileNotFoundError]) =
   (Inr 1,
    \<lparr>world = [],
     events = [Run [''node'', ''--version''],
               ReadFile ''/etc/os-release'',
               Run [''sudo'', ''apt'', ''update''],
               Run [''sudo'', ''apt'', ''install'', ''-y'', ''curl'', ''gnupg''],
               Run [''curl'', ''-fsSL'', ''https://deb.nodesource.com/setup_18.x''],
               Run [''curl'', ''-fsSL'', ''https://deb.nodesource.com/setup_18.x''],
               Run [''sudo'', ''-E'', ''bash'', ''-c'', ''echo b''],
               Run [''sudo'', ''apt'', ''install'', ''-y'', ''nodejs''],
               Run [''node'', ''--version'']],
     printed = [Checking, NodeMissing, StartInstall, DetectedSystem ''Ubuntu'',
                DistroId ''ubuntu'', DebianBanner, InstallOk, NodeMissing, VerifyFailed]\<rparr>)"
proof -
  let ?h = "scripted_host (Inr ubuntu_os_release) ''Linux'' 0"
  let ?st = "start [Inl FileNotFoundError, Inr [], Inr [], Inr ''echo a'', Inr ''echo b'', Inr [],
      Inr [], Inl FileNotFoundError]"
  let ?st3 = "\<lparr>world = [Inr [], Inr [], Inr ''echo a'', Inr ''echo b'', Inr [], Inr [],
                       Inl FileNotFoundError],
               events = [Run [''node'', ''--version'']],
               printed = [Checking, NodeMissing]\<rparr>"
  let ?st4 = "\<lparr>world = [Inl FileNotFoundError],
     events = [Run [''node'', ''--version''],
               ReadFile ''/etc/os-release'',
               Run [''sudo'', ''apt'', ''update''],
               Run [''sudo'', ''apt'', ''install'', ''-y'', ''curl'', ''gnupg''],
               Run [''curl'', ''-fsSL'', ''https://deb.nodesource.com/setup_18.x''],
               Run [''curl'', ''-fsSL'', ''https://deb.nodesource.com/setup_18.x''],
               Run [''sudo'', ''-E'', ''bash'', ''-c'', ''echo b''],
               Run [''sudo'', ''apt'', ''install'', ''-y'', ''nodejs'']],
     printed = [Checking, NodeMissing, StartInstall, DetectedSystem ''Ubuntu'',
                DistroId ''ubuntu'', DebianBanner, InstallOk]\<rparr>"
  let ?st5 = "\<lparr>world = [],
     events = [Run [''node'', ''--version''],
               ReadFile ''/etc/os-release'',
               Run [''sudo'', ''apt'', ''update''],
               Run [''sudo'', ''apt'', ''install'', ''-y'', ''curl'', ''gnupg''],
               Run [''curl'', ''-fsSL'', ''https://deb.nodesource.com/setup_18.x''],
               Run [''curl'', ''-fsSL'', ''https://deb.nodesource.com/setup_18.x''],
               Run [''sudo'', ''-E'', ''bash'', ''-c'', ''echo b''],
               Run [''sudo'', ''apt'', ''install'', ''-y'', ''nodejs''],
               Run [''node'', ''--version'']],
     printed = [Checking, NodeMissing, StartInstall, DetectedSystem ''Ubuntu'',
                DistroId ''ubuntu'', DebianBanner, InstallOk, NodeMissing]\<rparr>"
  have linux: "platform_system ?h = ''Linux''" by simp
  have c1: "check_node_installed ?h
      (say Checking (if geteuid ?h \<noteq> 0 then say SudoAdvised ?st else ?st)) = (Inr False, ?st3)"
    by (simp add: first_check_missing)
  have ins: "install_nodejs ?h (say StartInstall ?st3) = (Inr True, ?st4)"
    using ubuntu_install_all_ok [of 0 "[Inl FileNotFoundError]"] by (simp add: say_def)
  have c2: "check_node_installed ?h ?st4 = (Inr False, ?st5)"
    by (simp add: run_defs)
  from main_verification_failure [OF linux c1 ins c2] show ?thesis
    by (simp add: say_def)
qed

theorem setup_exactly_on_success_witness:
  "fst (main (scripted_host (Inr ubuntu_os_release) ''Linux'' 0)
     (start [Inl FileNotFoundError, Inr [], Inr [], Inr ''echo a'', Inr ''echo b'', Inr [], Inr [],
             Inr ''v18.19.0''])) = Inr 0
 \<and> setups (events (snd (main (scripted_host (Inr ubuntu_os_release) ''Linux'' 0)
     (start [Inl FileNotFoundError, Inr [], Inr [], Inr ''echo a'', Inr ''echo b'', Inr [], Inr [],
             Inr ''v18.19.0''])))) = [''http'']
 \<and> fst (main (scripted_host (Inr ubuntu_os_release) ''Linux'' 0) (start [Inr ''v18.19.0''])) = Inr 0
 \<and> setups (events (snd (main (scripted_host (Inr ubuntu_os_release) ''Linux'' 0)
     (start [Inr ''v18.19.0''])))) = [''http'']
 \<and> setups (events (snd (main (scripted_host (Inr ubuntu_os_release) ''Darwin'' 0)
     (start [Inr ''v18.19.0''])))) = []"
proof -
  let ?h = "scripted_host (Inr ubuntu_os_release) ''Linux'' 0"
  let ?mac = "scripted_host (Inr ubuntu_os_release) ''Darwin'' 0"
  let ?st = "start [Inl FileNotFoundError, Inr [], Inr [], Inr ''echo a'', Inr ''echo b'', Inr [],
      Inr [], Inr ''v18.19.0'']"
  let ?pre = "start [Inr ''v18.19.0'']"
  let ?st3 = "\<lparr>world = [Inr [], Inr [], Inr ''echo a'', Inr ''echo b'', Inr [], Inr [],
                       Inr ''v18.19.0''],
               events = [Run [''node'', ''--version'']],
               printed = [Checking, NodeMissing]\<rparr>"
  let ?st4 = "\<lparr>world = [Inr ''v18.19.0''],
     events = [Run [''node'', ''--version''],
               ReadFile ''/etc/os-release'',
               Run [''sudo'', ''apt'', ''update''],
               Run [''sudo'', ''apt'', ''install'', ''-y'', ''curl'', ''gnupg''],
               Run [''curl'', ''-fsSL'', ''https://deb.nodesource.com/setup_18.x''],
               Run [''curl'', ''-fsSL'', ''https://deb.nodesource.com/setup_18.x''],
               Run [''sudo'', ''-E'', ''bash'', ''-c'', ''echo b''],
               Run [''sudo'', ''apt'', ''install'', ''-y'', ''nodejs'']],
     printed = [Checking, NodeMissing, StartInstall, DetectedSystem ''Ubuntu'',
                DistroId ''ubuntu'', DebianBanner, InstallOk]\<rparr>"
  have e: "setups (events ?st) = []" "setups (events ?pre) = []"
    by (simp_all add: start_def)
  have post: "platform_system ?h = ''Linux''
      \<and> check_node_installed ?h
           (say Checking (if geteuid ?h \<noteq> 0 then say SudoAdvised ?st else ?st)) = (Inr False, ?st3)
      \<and> install_nodejs ?h (say StartInstall ?st3) = (Inr True, ?st4)
      \<and> fst (check_node_installed ?h ?st4) = Inr True"
    using ubuntu_install_all_ok [of 0 "[Inr ''v18.19.0'']"]
    by (simp add: first_check_missing) (simp add: run_defs)
  have pre: "platform_system ?h = ''Linux''
      \<and> fst (check_node_installed ?h
           (say Checking (if geteuid ?h \<noteq> 0 then say SudoAdvised ?pre else ?pre))) = Inr True"
    by (simp add: run_defs)
  have mac: "fst (main ?mac ?pre) \<noteq> Inr 0"
    by (simp add: main_def)
  note t1 = setup_exactly_on_success [of ?h ?st]
  note t2 = setup_exactly_on_success [of ?h ?pre]
  note t3 = setup_exactly_on_success [of ?mac ?pre]
  have a: "fst (main ?h ?st) = Inr 0"
    using t1 [THEN conjunct2, THEN conjunct2, THEN conjunct1, THEN spec, THEN spec, THEN mp, OF post]
    by simp
  have b: "fst (main ?h ?pre) = Inr 0"
    using t2 [THEN conjunct2, THEN conjunct1, THEN mp, OF pre] by simp
  from t1 [THEN conjunct1] t2 [THEN conjunct1] t3 [THEN conjunct1] a b mac e
  show ?thesis
    by (simp add: start_def)
qed

section \<open>The platform gate\<close>

lemma subprocess_run_euid: "subprocess_run (h\<lparr>geteuid := u\<rparr>) = subprocess_run h"
  by (intro ext) (simp add: subprocess_run_def)

lemma check_euid: "check_node_installed (h\<lparr>geteuid := u\<rparr>) = check_node_installed h"
  by (intro ext) (simp add: check_node_installed_def subprocess_run_euid)

lemma detect_euid: "detect_linux_distro (h\<lparr>geteuid := u\<rparr>) = detect_linux_distro h"
  by (intro ext) (simp add: detect_linux_distro_def)

lemma debian_euid: "install_nodejs_debian_based (h\<lparr>geteuid := u\<rparr>) = install_nodejs_debian_based h"
  by (intro ext) (simp add: install_nodejs_debian_based_def subprocess_run_euid)

lemma redhat_euid: "install_nodejs_redhat_based (h\<lparr>geteuid := u\<rparr>) = install_nodejs_redhat_based h"
  by (intro ext) (simp add: install_nodejs_redhat_based_def subprocess_run_euid)

lemma try_managers_euid: "try_managers (h\<lparr>geteuid := u\<rparr>) pms st = try_managers h pms st"
  by (induction pms arbitrary: st)
     (simp_all add: subprocess_run_euid split: prod.splits sum.splits exn.splits)

lemma fallback_euid: "install_nodejs_fallback (h\<lparr>geteuid := u\<rparr>) = install_nodejs_fallback h"
  by (intro ext) (simp add: install_nodejs_fallback_def try_managers_euid)

lemma unsupported_euid:
  "unsupported_then_fallback (h\<lparr>geteuid := u\<rparr>) = unsupported_then_fallback h"
  by (intro ext) (simp add: unsupported_then_fallback_def fallback_euid)

lemma dispatch_euid: "dispatch (h\<lparr>geteuid := u\<rparr>) = dispatch h"
  unfolding dispatch_def debian_euid redhat_euid fallback_euid unsupported_euid ..

lemma install_euid: "install_nodejs (h\<lparr>geteuid := u\<rparr>) = install_nodejs h"
  by (intro ext) (simp add: install_nodejs_def detect_euid dispatch_euid)

text \<open>
  Claim C8. On a host whose platform is not Linux the run stops at once with exit status
  1: it has printed one line and done nothing to the host. On Linux, a user who is not
  root gets the advice to use sudo and the run goes on exactly as the run of root does
  after that line.
\<close>

theorem platform_gate:
  "(platform_system h \<noteq> ''Linux'' \<longrightarrow>
      main h st = (Inr 1, say LinuxOnly st)
    \<and> exit_status (fst (main h st)) = 1
    \<and> events (snd (main h st)) = events st
    \<and> world (snd (main h st)) = world st)
 \<and> (platform_system h = ''Linux'' \<and> geteuid h \<noteq> 0 \<longrightarrow>
      main h st = main (h\<lparr>geteuid := 0\<rparr>) (say SudoAdvised st))"
proof -
  have stop: "main h st = (Inr 1, say LinuxOnly st)
    \<and> exit_status (fst (main h st)) = 1
    \<and> events (snd (main h st)) = events st
    \<and> world (snd (main h st)) = world st"
    if "platform_system h \<noteq> ''Linux''"
    using that by (simp add: main_def exit_status_def)
  have warn: "main h st = main (h\<lparr>geteuid := 0\<rparr>) (say SudoAdvised st)"
    if "platform_system h = ''Linux'' \<and> geteuid h \<noteq> 0"
  proof -
    have l: "platform_system h = ''Linux''" and l0: "platform_system (h\<lparr>geteuid := 0\<rparr>) = ''Linux''"
      using that by simp_all
    have g: "gate_passed h st = gate_passed (h\<lparr>geteuid := 0\<rparr>) (say SudoAdvised st)"
      using that by (simp add: gate_passed_def)
    show ?thesis
      unfolding main_linux [OF l] main_linux [OF l0] g check_euid install_euid ..
  qed
  from stop warn show ?thesis by blast
qed

theorem platform_gate_witness:
  "main (scripted_host (Inr ubuntu_os_release) ''Darwin'' 0) (start [Inr ''v18.19.0'']) =
     (Inr 1, \<lparr>world = [Inr ''v18.19.0''], events = [], printed = [LinuxOnly]\<rparr>)
 \<and> main (scripted_host (Inr ubuntu_os_release) ''Linux'' 1000) (start [Inr ''v18.19.0'']) =
     (Inr 0, \<lparr>world = [], events = [Run [''node'', ''--version''], Setup ''http''],
              printed = [SudoAdvised, Checking, NodeInstalled ''v18.19.0'', EnvReady]\<rparr>)"
proof -
  let ?mac = "scripted_host (Inr ubuntu_os_release) ''Darwin'' 0"
  let ?user = "scripted_host (Inr ubuntu_os_release) ''Linux'' 1000"
  let ?st = "start [Inr ''v18.19.0'']"
  have mac: "platform_system ?mac \<noteq> ''Linux''" by simp
  have user: "platform_system ?user = ''Linux'' \<and> geteuid ?user \<noteq> 0" by simp
  have root: "?user\<lparr>geteuid := 0\<rparr> = scripted_host (Inr ubuntu_os_release) ''Linux'' 0"
    by (simp add: scripted_host_def)
  have run: "main (scripted_host (Inr ubuntu_os_release) ''Linux'' 0) (say SudoAdvised ?st) =
     (Inr 0, \<lparr>world = [], events = [Run [''node'', ''--version''], Setup ''http''],
              printed = [SudoAdvised, Checking, NodeInstalled ''v18.19.0'', EnvReady]\<rparr>)"
    by (simp add: main_def run_defs strip_version finish_def setup_call_def)
  from platform_gate [of ?mac ?st, THEN conjunct1, THEN mp, OF mac]
    platform_gate [of ?user ?st, THEN conjunct2, THEN mp, OF user]
  show ?thesis
    unfolding root run by (simp add: say_def start_def)
qed

section \<open>An os-release file that cannot be read\<close>

lemma foldl_parse_line_None:
  "foldl (\<lambda>info line. parse_line line info) info0 ls k = None \<longleftrightarrow>
     info0 k = None \<and>
     (\<forall>line \<in> set ls. CHR ''='' \<in> set line \<longrightarrow> takeWhile (\<lambda>c. c \<noteq> CHR ''='') line \<noteq> k)"
  by (induction ls arbitrary: info0) (auto simp: parse_line_def)

lemma parse_os_release_None_iff:
  "parse_os_release content k = None \<longleftrightarrow>
     (\<forall>line \<in> set (split_char (CHR 0x0A) content).
        CHR ''='' \<in> set line \<longrightarrow> takeWhile (\<lambda>c. c \<noteq> CHR ''='') line \<noteq> k)"
  by (simp add: parse_os_release_def foldl_parse_line_None)

lemma lower_Nil [simp]: "lower [] = []"
  by (simp add: lower_def)

text \<open>
  Claim C6, as amended. When opening or reading the os-release file raises, the detection
  does not raise: it prints the failure and returns \<^verbatim>\<open>(None, None)\<close>, with no display name,
  and \<^verbatim>\<open>install_nodejs\<close> runs the fallback strategy at once. A file that can be read is
  never a failure, whatever it holds; when it has no \<open>ID\<close> key the id is empty, the name
  printed is the \<open>NAME\<close> value or Unknown, and the fallback strategy runs as well.
\<close>

theorem unreadable_os_release_routes_to_fallback:
  "(\<forall>e. slurp h ''/etc/os-release'' (world st) = Inl e \<longrightarrow>
        detect_linux_distro h st =
          (None, say (CannotDetect e) (st\<lparr>events := events st @ [ReadFile ''/etc/os-release'']\<rparr>))
      \<and> install_nodejs h st =
          install_nodejs_fallback h
            (say UnknownDistro (say (CannotDetect e)
               (st\<lparr>events := events st @ [ReadFile ''/etc/os-release'']\<rparr>))))
 \<and> (\<forall>content. slurp h ''/etc/os-release'' (world st) = Inr content
        \<and> parse_os_release content ''ID'' = None \<longrightarrow>
        fst (detect_linux_distro h st) =
          Some ('''', lower (dict_get (parse_os_release content) ''ID_LIKE'' ''''))
      \<and> printed (snd (detect_linux_distro h st)) =
          printed st @ [DetectedSystem (dict_get (parse_os_release content) ''NAME'' ''Unknown''),
                        DistroId '''']
      \<and> install_nodejs h st =
          install_nodejs_fallback h (say UnknownDistro (snd (detect_linux_distro h st))))"
proof -
  have failed: "detect_linux_distro h st =
          (None, say (CannotDetect e) (st\<lparr>events := events st @ [ReadFile ''/etc/os-release'']\<rparr>))
      \<and> install_nodejs h st =
          install_nodejs_fallback h
            (say UnknownDistro (say (CannotDetect e)
               (st\<lparr>events := events st @ [ReadFile ''/etc/os-release'']\<rparr>)))"
    if "slurp h ''/etc/os-release'' (world st) = Inl e" for e
    using that
    by (simp add: install_nodejs_def detect_linux_distro_def os_release_def dispatch_def falsy_def)
  have no_id: "fst (detect_linux_distro h st) =
          Some ('''', lower (dict_get (parse_os_release content) ''ID_LIKE'' ''''))
      \<and> printed (snd (detect_linux_distro h st)) =
          printed st @ [DetectedSystem (dict_get (parse_os_release content) ''NAME'' ''Unknown''),
                        DistroId '''']
      \<and> install_nodejs h st =
          install_nodejs_fallback h (say UnknownDistro (snd (detect_linux_distro h st)))"
    if "slurp h ''/etc/os-release'' (world st) = Inr content
        \<and> parse_os_release content ''ID'' = None" for content
  proof -
    have det: "detect_linux_distro h st =
        (Some ('''', lower (dict_get (parse_os_release content) ''ID_LIKE'' '''')),
         say (DistroId '''')
           (say (DetectedSystem (dict_get (parse_os_release content) ''NAME'' ''Unknown''))
              (st\<lparr>events := events st @ [ReadFile ''/etc/os-release'']\<rparr>)))"
      using that
      by (simp add: detect_linux_distro_def os_release_def Let_def dict_get_def)
    then show ?thesis
      by (simp add: install_nodejs_def dispatch_def falsy_def)
  qed
  from failed no_id show ?thesis by blast
qed

theorem unreadable_os_release_routes_to_fallback_witness:
  "install_nodejs (scripted_host (Inl PermissionError) ''Linux'' 0) (start [Inr []]) =
     (Inr True,
      \<lparr>world = [],
       events = [ReadFile ''/etc/os-release'',
                 Run [''sudo'', ''apt'', ''install'', ''-y'', ''nodejs'', ''npm'']],
       printed = [CannotDetect PermissionError, UnknownDistro, FallbackBanner, FallbackOk]\<rparr>)
 \<and> install_nodejs (scripted_host (Inr ''not an os-release file'') ''Linux'' 0) (start [Inr []]) =
     (Inr True,
      \<lparr>world = [],
       events = [ReadFile ''/etc/os-release'',
                 Run [''sudo'', ''apt'', ''install'', ''-y'', ''nodejs'', ''npm'']],
       printed = [DetectedSystem ''Unknown'', DistroId '''', UnknownDistro,
                  FallbackBanner, FallbackOk]\<rparr>)"
proof -
  let ?denied = "scripted_host (Inl PermissionError) ''Linux'' 0"
  let ?junk = "scripted_host (Inr ''not an os-release file'') ''Linux'' 0"
  let ?st = "start [Inr []]"
  have a: "slurp ?denied ''/etc/os-release'' (world ?st) = Inl PermissionError"
    by simp
  have parse: "parse_os_release ''not an os-release file'' = Map.empty"
    by (simp add: parse_os_release_def split_char_def parse_line_def)
  have b: "slurp ?junk ''/etc/os-release'' (world ?st) = Inr ''not an os-release file''
      \<and> parse_os_release ''not an os-release file'' ''ID'' = None"
    by (simp add: parse)
  have det: "detect_linux_distro ?junk ?st =
      (Some ('''', ''''),
       \<lparr>world = [Inr []], events = [ReadFile ''/etc/os-release''],
        printed = [DetectedSystem ''Unknown'', DistroId '''']\<rparr>)"
    by (simp add: detect_linux_distro_def os_release_def Let_def dict_get_def parse start_def say_def)
  from unreadable_os_release_routes_to_fallback [of ?denied ?st, THEN conjunct1, THEN spec,
      THEN mp, OF a, THEN conjunct2]
    unreadable_os_release_routes_to_fallback [of ?junk ?st, THEN conjunct2, THEN spec,
      THEN mp, OF b, THEN conjunct2, THEN conjunct2]
  show ?thesis
    unfolding det by (simp add: run_defs)
qed

text \<open>
  The claim as stated fails when the file cannot be read: what is returned is
  \<^verbatim>\<open>(None, None)\<close>, not an empty id with an empty \<open>ID_LIKE\<close>, and the line printed is the
  failure, not a system named Unknown.
\<close>

theorem unreadable_os_release_counterexample:
  "detect_linux_distro (scripted_host (Inl PermissionError) ''Linux'' 0) (start []) =
     (None, \<lparr>world = [], events = [ReadFile ''/etc/os-release''],
             printed = [CannotDetect PermissionError]\<rparr>)
 \<and> fst (detect_linux_distro (scripted_host (Inl PermissionError) ''Linux'' 0) (start []))
     \<noteq> Some ('''', '''')
 \<and> DetectedSystem ''Unknown''
     \<notin> set (printed (snd (detect_linux_distro (scripted_host (Inl PermissionError) ''Linux'' 0)
         (start []))))"
  by (simp add: detect_linux_distro_def os_release_def start_def say_def)

end
